theory Spec2Isabelle
  imports Main
begin

section \<open>Exceptions and Python values\<close>

text \<open>
  The exception classes raised by the endpoints (imported from
  \<^verbatim>\<open>ayon_server.exceptions\<close>), each carrying its message, and Python's
  built-in \<^verbatim>\<open>ValueError\<close>. A raised exception is the \<open>Inl\<close> branch of a
  sum type.
\<close>

datatype exn =
    BadRequestException string
  | ForbiddenException string
  | ServiceUnavailableException string
  | NotFoundException string
  | ValueError string

text \<open>
  Modelled from the spec: the error taxonomy of section 7 (the exception classes
  themselves live in \<^verbatim>\<open>ayon_server.exceptions\<close>, which is not part of the sources).
  Client errors are the malformed request, the wildcarded target, the
  non-service caller and the missing entity; the capacity error is transient.
\<close>

fun is_client_error :: "exn \<Rightarrow> bool" where
  "is_client_error (BadRequestException m) = True"
| "is_client_error (ForbiddenException m) = True"
| "is_client_error (NotFoundException m) = True"
| "is_client_error (ServiceUnavailableException m) = False"
| "is_client_error (ValueError m) = False"

text \<open>Whether a result is the capacity error.\<close>

fun is_unavailable :: "exn + 'a \<Rightarrow> bool" where
  "is_unavailable (Inl (ServiceUnavailableException m)) = True"
| "is_unavailable r = False"

text \<open>
  Python values of the two types that meet in the comparison
  \<^verbatim>\<open>payload.ignore_older_than == "0"\<close>. Python's \<^verbatim>\<open>==\<close> between an
  \<^verbatim>\<open>int\<close> and a \<^verbatim>\<open>str\<close> is \<^verbatim>\<open>False\<close>.
\<close>

datatype pyval = PyInt int | PyStr string

fun py_eq :: "pyval \<Rightarrow> pyval \<Rightarrow> bool" where
  "py_eq (PyInt a) (PyInt b) = (a = b)"
| "py_eq (PyStr a) (PyStr b) = (a = b)"
| "py_eq (PyInt a) (PyStr b) = False"
| "py_eq (PyStr a) (PyInt b) = False"

text \<open>Python's \<^verbatim>\<open>str(n)\<close> for an integer, as used by the f-strings.\<close>

definition digit_char :: "nat \<Rightarrow> char" where
  "digit_char d = ''0123456789'' ! (d mod 10)"

function str_nat :: "nat \<Rightarrow> string" where
  "str_nat n = (if n < 10 then [digit_char n] else str_nat (n div 10) @ [digit_char (n mod 10)])"
  by pat_completeness auto
termination
  by (relation "measure (\<lambda>n. n)") auto

declare str_nat.simps [simp del]

definition str_int :: "int \<Rightarrow> string" where
  "str_int i = (if i < 0 then CHR ''-'' # str_nat (nat (- i)) else str_nat (nat i))"

text \<open>Python's \<^verbatim>\<open>sep.join(xs)\<close>.\<close>

fun str_join :: "string \<Rightarrow> string list \<Rightarrow> string" where
  "str_join sep [] = []"
| "str_join sep [x] = x"
| "str_join sep (x # y # ys) = x @ sep @ str_join sep (y # ys)"

section \<open>The enrollment endpoint (api/events/enroll.py)\<close>

text \<open>
  \<^verbatim>\<open>source_topic: str | list[str]\<close>: the two shapes are kept apart, as
  \<^verbatim>\<open>isinstance(payload.source_topic, str)\<close> tells them apart.
\<close>

datatype topics = Single string | Many "string list"

text \<open>
  \<^verbatim>\<open>EnrollRequestModel\<close>. The filter is an opaque value of type \<open>'f\<close>
  (\<^verbatim>\<open>ayon_server.sqlfilter.Filter\<close>).
\<close>

record 'f EnrollRequestModel =
  source_topic :: topics
  target_topic :: string
  sender :: string
  description :: "string option"
  sequential :: bool
  filter_opt :: "'f option"
  max_retries :: int
  ignore_older_than :: int
  sloth_mode :: bool

text \<open>
  The request body before validation: every field may be absent. The field
  declarations of \<^verbatim>\<open>EnrollRequestModel\<close> say which are required
  (\<^verbatim>\<open>Field(...)\<close>) and what the others default to.
\<close>

record 'f enroll_request_body =
  body_source_topic :: "topics option"
  body_target_topic :: "string option"
  body_sender :: "string option"
  body_description :: "string option"
  body_sequential :: "bool option"
  body_filter :: "'f option"
  body_max_retries :: "int option"
  body_ignore_older_than :: "int option"
  body_sloth_mode :: "bool option"

datatype validation_error = MissingField string | RegexMismatch string

definition default_to :: "'a \<Rightarrow> 'a option \<Rightarrow> 'a" where
  "default_to d v = (case v of None \<Rightarrow> d | Some x \<Rightarrow> x)"

definition required_errors :: "string \<Rightarrow> 'a option \<Rightarrow> validation_error list" where
  "required_errors field v = (case v of None \<Rightarrow> [MissingField field] | Some x \<Rightarrow> [])"

text \<open>
  Building the model from a request body. \<open>topic_regex\<close> stands for
  \<^verbatim>\<open>re.match(TOPIC_REGEX, value)\<close>; the constant \<^verbatim>\<open>TOPIC_REGEX\<close> is
  imported from \<^verbatim>\<open>ayon_server.types\<close> and is a parameter here.
\<close>

definition parse_EnrollRequestModel ::
  "(string \<Rightarrow> bool) \<Rightarrow> 'f enroll_request_body \<Rightarrow> validation_error list + 'f EnrollRequestModel" where
  "parse_EnrollRequestModel topic_regex b =
     (case (body_source_topic b, body_target_topic b, body_sender b) of
        (Some src, Some tgt, Some sndr) \<Rightarrow>
          if topic_regex tgt then
            Inr \<lparr> source_topic = src,
                  target_topic = tgt,
                  sender = sndr,
                  description = body_description b,
                  sequential = default_to False (body_sequential b),
                  filter_opt = body_filter b,
                  max_retries = default_to 3 (body_max_retries b),
                  ignore_older_than = default_to 3 (body_ignore_older_than b),
                  sloth_mode = default_to False (body_sloth_mode b) \<rparr>
          else Inl [RegexMismatch ''target_topic'']
      | _ \<Rightarrow>
          Inl (required_errors ''source_topic'' (body_source_topic b)
             @ required_errors ''target_topic'' (body_target_topic b)
             @ (case body_target_topic b of
                  None \<Rightarrow> []
                | Some tgt \<Rightarrow> if topic_regex tgt then [] else [RegexMismatch ''target_topic''])
             @ required_errors ''sender'' (body_sender b)))"

text \<open>\<^verbatim>\<open>value.replace("*", "%")\<close>: both strings are one character long.\<close>

definition replace_star :: "string \<Rightarrow> string" where
  "replace_star v = map (\<lambda>c. if c = CHR ''*'' then CHR ''%'' else c) v"

definition validate_source_topic :: "(string \<Rightarrow> bool) \<Rightarrow> string \<Rightarrow> exn + string" where
  "validate_source_topic topic_regex v =
     (if \<not> topic_regex v then Inl (BadRequestException (''Invalid topic: '' @ v))
      else Inr (replace_star v))"

text \<open>
  The list comprehension \<^verbatim>\<open>[validate_source_topic(t) for t in payload.source_topic]\<close>:
  the first pattern that raises ends it.
\<close>

fun validate_source_topics :: "(string \<Rightarrow> bool) \<Rightarrow> string list \<Rightarrow> exn + string list" where
  "validate_source_topics topic_regex [] = Inr []"
| "validate_source_topics topic_regex (t # ts) =
     (case validate_source_topic topic_regex t of
        Inl e \<Rightarrow> Inl e
      | Inr t' \<Rightarrow>
          (case validate_source_topics topic_regex ts of
             Inl e \<Rightarrow> Inl e
           | Inr ts' \<Rightarrow> Inr (t' # ts')))"

fun normalize_source_topic :: "(string \<Rightarrow> bool) \<Rightarrow> topics \<Rightarrow> exn + topics" where
  "normalize_source_topic topic_regex (Single t) =
     (case validate_source_topic topic_regex t of Inl e \<Rightarrow> Inl e | Inr t' \<Rightarrow> Inr (Single t'))"
| "normalize_source_topic topic_regex (Many ts) =
     (case validate_source_topics topic_regex ts of Inl e \<Rightarrow> Inl e | Inr ts' \<Rightarrow> Inr (Many ts'))"

record current_user =
  name :: string
  is_service :: bool

text \<open>The arguments of one call of \<^verbatim>\<open>enroll_job\<close>.\<close>

record 'f enroll_job_call =
  job_source_topic :: topics
  job_target_topic :: string
  job_sender :: string
  job_user_name :: string
  job_description :: "string option"
  job_sequential :: bool
  job_filter :: "'f option"
  job_max_retries :: int
  job_ignore_older_than :: "int option"
  job_sloth_mode :: bool

text \<open>
  The server as the endpoint sees it: the event store (opaque, of type \<open>'st\<close>),
  what \<^verbatim>\<open>Postgres.get_available_connections()\<close> returns, and a log of the
  calls of \<^verbatim>\<open>enroll_job\<close> made so far.
\<close>

record ('f, 'st) server =
  store :: 'st
  available_connections :: int
  job_calls :: "'f enroll_job_call list"

datatype 'r enroll_result = EmptyResponse | Job 'r

text \<open>
  \<^verbatim>\<open>ignore_older = payload.ignore_older_than\<close>, then
  \<^verbatim>\<open>if payload.ignore_older_than == "0": ignore_older = None\<close>.
  The field is an \<^verbatim>\<open>int\<close>; the literal it is compared with is a \<^verbatim>\<open>str\<close>.
\<close>

definition ignore_older :: "'f EnrollRequestModel \<Rightarrow> int option" where
  "ignore_older payload =
     (if py_eq (PyInt (ignore_older_than payload)) (PyStr ''0'') then None
      else Some (ignore_older_than payload))"

definition enroll_job_args ::
  "'f EnrollRequestModel \<Rightarrow> current_user \<Rightarrow> topics \<Rightarrow> 'f enroll_job_call" where
  "enroll_job_args payload user src =
     \<lparr> job_source_topic = src,
       job_target_topic = target_topic payload,
       job_sender = sender payload,
       job_user_name = name user,
       job_description = description payload,
       job_sequential = sequential payload,
       job_filter = filter_opt payload,
       job_max_retries = max_retries payload,
       job_ignore_older_than = ignore_older payload,
       job_sloth_mode = sloth_mode payload \<rparr>"

text \<open>
  \<^verbatim>\<open>enroll\<close>. The function \<^verbatim>\<open>enroll_job\<close> (imported from
  \<^verbatim>\<open>ayon_server.events.enroll\<close>) is a parameter: it takes its arguments and the
  store, and gives back the store with either an exception or an optional job.
\<close>

definition enroll ::
  "(string \<Rightarrow> bool) \<Rightarrow>
   ('f enroll_job_call \<Rightarrow> 'st \<Rightarrow> (exn + 'r option) \<times> 'st) \<Rightarrow>
   'f EnrollRequestModel \<Rightarrow> current_user \<Rightarrow> ('f, 'st) server \<Rightarrow>
   (exn + 'r enroll_result) \<times> ('f, 'st) server" where
  "enroll topic_regex enroll_job payload user s =
     (if \<not> is_service user then
        (Inl (ForbiddenException ''Only services can enroll for jobs''), s)
      else
        case normalize_source_topic topic_regex (source_topic payload) of
          Inl e \<Rightarrow> (Inl e, s)
        | Inr src \<Rightarrow>
            if CHR ''*'' \<in> set (target_topic payload) then
              (Inl (BadRequestException ''Target topic must not contain wildcards''), s)
            else if available_connections s < 3 then
              (Inl (ServiceUnavailableException
                 (''Postgres remaining pool size: '' @ str_int (available_connections s))), s)
            else
              let args = enroll_job_args payload user src;
                  (res, st') = enroll_job args (store s);
                  s' = s\<lparr> store := st', job_calls := job_calls s @ [args] \<rparr>
              in case res of
                   Inl e \<Rightarrow> (Inl e, s')
                 | Inr None \<Rightarrow> (Inr EmptyResponse, s')
                 | Inr (Some r) \<Rightarrow> (Inr (Job r), s'))"

text \<open>
  Modelled from the spec: the restricted topic grammar (the constant
  \<^verbatim>\<open>TOPIC_REGEX\<close> of \<^verbatim>\<open>ayon_server.types\<close> is not part of the sources):
  alphanumeric segments separated by dots, a segment may also be the wildcard
  token. It instantiates the parameter \<open>topic_regex\<close> at concrete inputs; the
  general theorems hold for every grammar.
\<close>

definition is_alnum :: "char \<Rightarrow> bool" where
  "is_alnum c = (c \<in> set ''abcdefghijklmnopqrstuvwxyzABCDEFGHIJKLMNOPQRSTUVWXYZ0123456789'')"

fun split_dots :: "string \<Rightarrow> string \<Rightarrow> string list" where
  "split_dots acc [] = [rev acc]"
| "split_dots acc (c # cs) =
     (if c = CHR ''.'' then rev acc # split_dots [] cs else split_dots (c # acc) cs)"

definition topic_segment :: "string \<Rightarrow> bool" where
  "topic_segment seg = (seg = ''*'' \<or> (seg \<noteq> [] \<and> list_all is_alnum seg))"

definition topic_grammar :: "string \<Rightarrow> bool" where
  "topic_grammar v = list_all topic_segment (split_dots [] v)"

text \<open>
  Modelled from the spec: the matching of a normalized pattern against an event
  topic, done by the store inside \<^verbatim>\<open>enroll_job\<close> (not part of the sources):
  the wildcard, substituted by \<^verbatim>\<open>%\<close>, expands to any sequence of characters,
  every other character matches itself.
\<close>

fun like_match :: "string \<Rightarrow> string \<Rightarrow> bool" where
  "like_match [] t = (t = [])"
| "like_match (p # ps) [] = (p = CHR ''%'' \<and> like_match ps [])"
| "like_match (p # ps) (c # cs) =
     (if p = CHR ''%'' then like_match ps (c # cs) \<or> like_match (p # ps) cs
      else p = c \<and> like_match ps cs)"

section \<open>Sorting the reviewables of a version (api/review/sorting.py)\<close>

datatype json = JNull | JBool bool | JInt int | JStr string

text \<open>One row of \<^verbatim>\<open>activity_feed\<close>, with the columns the query reads.\<close>

record activity_feed_row =
  activity_id :: string
  reference_type :: string
  activity_type :: string
  entity_type :: string
  entity_id :: string

text \<open>
  The schema of one project: the rows of \<^verbatim>\<open>activity_feed\<close> and the table
  \<^verbatim>\<open>activities\<close>, from the id of a row to its \<^verbatim>\<open>data\<close> object.
\<close>

record project_db =
  activity_feed :: "activity_feed_row list"
  activities :: "string \<rightharpoonup> (string \<rightharpoonup> json)"

record SortReviewablesRequest =
  sort_field :: "string list option"

text \<open>The \<^verbatim>\<open>SELECT activity_id FROM ... activity_feed WHERE ...\<close> of the endpoint.\<close>

definition fetch_reviewables :: "project_db \<Rightarrow> string \<Rightarrow> string list" where
  "fetch_reviewables db version_id =
     map activity_id
       (filter (\<lambda>row. reference_type row = ''origin''
                     \<and> activity_type row = ''reviewable''
                     \<and> entity_type row = ''version''
                     \<and> entity_id row = version_id)
          (activity_feed db))"

text \<open>
  One \<^verbatim>\<open>UPDATE ... SET data = data || jsonb_build_object('reviewableOrder', $1::integer)
  WHERE id = $2\<close>: a row with that id gets the key, no other row changes, and
  with no such row nothing changes.
\<close>

definition update_reviewable_order ::
  "int \<Rightarrow> string \<Rightarrow> (string \<rightharpoonup> (string \<rightharpoonup> json)) \<Rightarrow> (string \<rightharpoonup> (string \<rightharpoonup> json))" where
  "update_reviewable_order i aid acts =
     (case acts aid of
        None \<Rightarrow> acts
      | Some d \<Rightarrow> acts(aid \<mapsto> d(''reviewableOrder'' \<mapsto> JInt i)))"

text \<open>\<^verbatim>\<open>for i, activity_id in enumerate(request.sort)\<close>, counting from \<open>i\<close>.\<close>

fun update_all_orders ::
  "nat \<Rightarrow> string list \<Rightarrow> (string \<rightharpoonup> (string \<rightharpoonup> json)) \<Rightarrow> (string \<rightharpoonup> (string \<rightharpoonup> json))" where
  "update_all_orders i [] acts = acts"
| "update_all_orders i (aid # rest) acts =
     update_all_orders (Suc i) rest (update_reviewable_order (int i) aid acts)"

text \<open>
  \<^verbatim>\<open>sort_version_reviewables\<close>. \<^verbatim>\<open>VersionEntity.load\<close> and
  \<^verbatim>\<open>ensure_update_access\<close> (of \<^verbatim>\<open>ayon_server.entities\<close>) are parameters:
  the first gives the version or raises, the second raises or passes.
\<close>

definition sort_version_reviewables ::
  "(project_db \<Rightarrow> string \<Rightarrow> string \<Rightarrow> exn + 'v) \<Rightarrow> ('v \<Rightarrow> 'u \<Rightarrow> exn option) \<Rightarrow>
   'u \<Rightarrow> string \<Rightarrow> string \<Rightarrow> SortReviewablesRequest \<Rightarrow> project_db \<Rightarrow>
   (exn + unit) \<times> project_db" where
  "sort_version_reviewables load ensure_update_access user pname version_id request db =
     (case load db pname version_id of
        Inl e \<Rightarrow> (Inl e, db)
      | Inr ver \<Rightarrow>
          (case ensure_update_access ver user of
             Some e \<Rightarrow> (Inl e, db)
           | None \<Rightarrow>
               let res = fetch_reviewables db version_id in
               if res = [] then (Inl (NotFoundException ''Version not found''), db)
               else
                 (case sort_field request of
                    None \<Rightarrow> (Inr (), db)
                  | Some srt \<Rightarrow>
                      let valid_ids = set res;
                          requested_ids = set srt
                      in if requested_ids \<noteq> valid_ids then
                           (Inl (BadRequestException ''Invalid reviewable ids''), db)
                         else
                           (Inr (), db\<lparr> activities := update_all_orders 0 srt (activities db) \<rparr>))))"

section \<open>The versions resolver (ayon_server/graphql/resolvers/versions.py)\<close>

text \<open>Python's truth value of an optional list and of an optional integer.\<close>

definition truthy_list :: "'a list option \<Rightarrow> bool" where
  "truthy_list v = (case v of None \<Rightarrow> False | Some xs \<Rightarrow> xs \<noteq> [])"

definition truthy_int :: "int option \<Rightarrow> bool" where
  "truthy_int v = (case v of None \<Rightarrow> False | Some n \<Rightarrow> n \<noteq> 0)"

definition nl :: string where
  "nl = [CHR 0x0A]"

definition sq :: string where
  "sq = [CHR 0x27]"

definition spaces :: "nat \<Rightarrow> string" where
  "spaces n = replicate n (CHR '' '')"

definition SORT_OPTIONS :: "(string \<times> string) list" where
  "SORT_OPTIONS =
     [(''version'', ''versions.version''),
      (''status'', ''versions.status''),
      (''createdAt'', ''versions.created_at''),
      (''updatedAt'', ''versions.updated_at'')]"

text \<open>The node the resolver hangs under: its project, its class name and its id.\<close>

record root_node =
  root_project_name :: string
  root_class_name :: string
  root_id :: string

record 'n VersionEdge =
  node :: 'n
  cursor :: "string option"

record 'n VersionsConnection =
  edges :: "'n VersionEdge list"

text \<open>The keyword arguments of \<^verbatim>\<open>get_versions\<close>, and their defaults.\<close>

record versions_args =
  first_arg :: "int option"
  after_arg :: "string option"
  last_arg :: "int option"
  before_arg :: "string option"
  ids :: "string list option"
  version :: "int option"
  versions :: "int list option"
  statuses :: "string list option"
  tags :: "string list option"
  subset_ids :: "string list option"
  task_ids :: "string list option"
  authors :: "string list option"
  latestOnly :: bool
  heroOnly :: bool
  heroOrLatestOnly :: bool
  has_links :: "string option"
  sort_by :: "string option"

definition default_versions_args :: versions_args where
  "default_versions_args =
     \<lparr> first_arg = None, after_arg = None, last_arg = None, before_arg = None,
       ids = None, version = None, versions = None, statuses = None, tags = None,
       subset_ids = None, task_ids = None, authors = None,
       latestOnly = False, heroOnly = False, heroOrLatestOnly = False,
       has_links = None, sort_by = None \<rparr>"

text \<open>
  What the resolver imports from \<^verbatim>\<open>ayon_server.graphql.resolvers.common\<close>,
  \<^verbatim>\<open>ayon_server.types\<close> and \<^verbatim>\<open>ayon_server.utils\<close>, none of it part of the
  sources: parameters, collected in one record. \<open>resolve\<close> is the call that
  sends the query to the store.
\<close>

record ('i, 'n) resolver_env =
  id_array :: "string list \<Rightarrow> string"
  int_array :: "int list \<Rightarrow> string"
  str_array :: "string list \<Rightarrow> bool \<Rightarrow> string"
  validate_name_list :: "string list \<Rightarrow> exn option"
  validate_status_list :: "string list \<Rightarrow> exn option"
  get_has_links_conds :: "string \<Rightarrow> string \<Rightarrow> string \<Rightarrow> string list"
  create_folder_access_list :: "root_node \<Rightarrow> 'i \<Rightarrow> string list option"
  has_any :: "'i \<Rightarrow> string \<Rightarrow> string list \<Rightarrow> bool"
  create_pagination ::
    "string list \<Rightarrow> int option \<Rightarrow> string option \<Rightarrow> int option \<Rightarrow> string option \<Rightarrow> bool
       \<Rightarrow> string \<times> string list \<times> string"
  conditions :: "string list \<Rightarrow> string"
  resolve :: "string \<Rightarrow> string \<Rightarrow> int option \<Rightarrow> int option \<Rightarrow> 'i \<Rightarrow> exn + 'n VersionsConnection"

text \<open>The resolver's effects: the calls of \<^verbatim>\<open>get_versions\<close> and the queries sent.\<close>

record resolver_log =
  get_versions_calls :: nat
  queries :: "string list"

definition sql_columns :: "string list" where
  "sql_columns =
     [''versions.id AS id'',
      ''versions.version AS version'',
      ''versions.subset_id AS subset_id'',
      ''versions.task_id AS task_id'',
      ''versions.thumbnail_id AS thumbnail_id'',
      ''versions.author AS author'',
      ''versions.attrib AS attrib'',
      ''versions.data AS data'',
      ''versions.status AS status'',
      ''versions.tags AS tags'',
      ''versions.active AS active'',
      ''versions.created_at AS created_at'',
      ''versions.updated_at AS updated_at'',
      ''versions.creation_order AS creation_order'']"

text \<open>
  The three list validations, in the order of the source: the first that raises
  ends the call (everything between them only appends to a local list).
\<close>

definition validate_lists :: "('i, 'n) resolver_env \<Rightarrow> versions_args \<Rightarrow> exn option" where
  "validate_lists env a =
     (case (if truthy_list (authors a) then validate_name_list env (the (authors a)) else None) of
        Some e \<Rightarrow> Some e
      | None \<Rightarrow>
          (case (if truthy_list (statuses a) then validate_status_list env (the (statuses a)) else None) of
             Some e \<Rightarrow> Some e
           | None \<Rightarrow>
               (if truthy_list (tags a) then validate_name_list env (the (tags a)) else None)))"

text \<open>The conditions appended from the filter arguments (from \<open>ids\<close> to \<open>task_ids\<close>).\<close>

definition filter_conditions :: "('i, 'n) resolver_env \<Rightarrow> root_node \<Rightarrow> versions_args \<Rightarrow> string list" where
  "filter_conditions env root a =
     (if truthy_list (ids a) then [''id IN '' @ id_array env (the (ids a))] else [])
   @ (if truthy_int (version a) then [''version = '' @ str_int (the (version a))] else [])
   @ (if truthy_list (versions a) then [''version IN '' @ int_array env (the (versions a))] else [])
   @ (if truthy_list (authors a) then [''author IN '' @ str_array env (the (authors a)) False] else [])
   @ (if truthy_list (statuses a) then [''status IN '' @ str_array env (the (statuses a)) False] else [])
   @ (if truthy_list (tags a) then [''tags @> '' @ str_array env (the (tags a)) True] else [])
   @ (if truthy_list (subset_ids a) then [''subset_id IN '' @ id_array env (the (subset_ids a))]
      else if root_class_name root = ''SubsetNode'' then [''subset_id = '' @ sq @ root_id root @ sq]
      else [])
   @ (if truthy_list (task_ids a) then [''task_id IN '' @ id_array env (the (task_ids a))]
      else if root_class_name root = ''TaskNode'' then [''task_id = '' @ sq @ root_id root @ sq]
      else [])"

definition latest_conditions :: "string \<Rightarrow> versions_args \<Rightarrow> string list" where
  "latest_conditions pname a =
     (if latestOnly a then
        [nl @ spaces 12 @ ''versions.id IN ('' @ nl
          @ spaces 12 @ ''SELECT l.ids[array_upper(l.ids, 1)]'' @ nl
          @ spaces 12 @ ''FROM project_'' @ pname @ ''.version_list as l'' @ nl
          @ spaces 12 @ '')'' @ nl
          @ spaces 12]
      else if heroOnly a then [''versions.version < 0'']
      else if heroOrLatestOnly a then
        [nl @ spaces 12 @ ''(versions.version < 0'' @ nl
          @ spaces 12 @ ''OR versions.id IN ('' @ nl
          @ spaces 16 @ ''SELECT l.ids[array_upper(l.ids, 1)]'' @ nl
          @ spaces 16 @ ''FROM project_'' @ pname @ ''.version_list as l'' @ nl
          @ spaces 16 @ ''WHERE l.versions[1] >= 0'' @ nl
          @ spaces 12 @ '')'' @ nl
          @ spaces 12 @ '')'' @ nl
          @ spaces 12]
      else [])"

definition links_conditions :: "('i, 'n) resolver_env \<Rightarrow> string \<Rightarrow> versions_args \<Rightarrow> string list" where
  "links_conditions env pname a =
     (case has_links a of
        None \<Rightarrow> []
      | Some hl \<Rightarrow> get_has_links_conds env pname ''versions.id'' hl)"

definition access_conditions :: "string list option \<Rightarrow> string list" where
  "access_conditions access_list =
     (case access_list of
        None \<Rightarrow> []
      | Some al \<Rightarrow> [''hierarchy.path like ANY ('' @ sq @ ''{ '' @ str_join '','' al @ '' }'' @ sq @ '')''])"

definition access_joins :: "string \<Rightarrow> string list option \<Rightarrow> string list" where
  "access_joins pname access_list =
     (case access_list of
        None \<Rightarrow> []
      | Some al \<Rightarrow>
          [nl @ spaces 16 @ ''INNER JOIN project_'' @ pname @ ''.subsets AS subsets'' @ nl
            @ spaces 16 @ ''ON subsets.id = versions.subset_id'' @ nl
            @ spaces 16,
           nl @ spaces 16 @ ''INNER JOIN project_'' @ pname @ ''.hierarchy AS hierarchy'' @ nl
            @ spaces 16 @ ''ON hierarchy.id = subsets.folder_id'' @ nl
            @ spaces 16])"

text \<open>
  \<^verbatim>\<open>order_by\<close>: the creation order, preceded by the column \<^verbatim>\<open>sort_by\<close>
  names; an unknown \<^verbatim>\<open>sort_by\<close> raises \<^verbatim>\<open>ValueError\<close>.
\<close>

definition order_by_of :: "string option \<Rightarrow> exn + string list" where
  "order_by_of sb =
     (case sb of
        None \<Rightarrow> Inr [''versions.creation_order'']
      | Some k \<Rightarrow>
          (case map_of SORT_OPTIONS k of
             Some col \<Rightarrow> Inr [col, ''versions.creation_order'']
           | None \<Rightarrow>
               if take 7 k = ''attrib.'' then
                 Inr [''versions.attrib->>'' @ sq @ drop 7 k @ sq, ''versions.creation_order'']
               else Inl (ValueError (''Invalid sort_by value: '' @ k))))"

definition versions_query ::
  "string \<Rightarrow> string \<Rightarrow> string list \<Rightarrow> string \<Rightarrow> string \<Rightarrow> string" where
  "versions_query pname cur joins conds pagination =
     nl @ spaces 8 @ ''SELECT '' @ cur @ '', '' @ str_join '', '' sql_columns @ nl
        @ spaces 8 @ ''FROM project_'' @ pname @ ''.versions AS versions'' @ nl
        @ spaces 8 @ str_join '' '' joins @ nl
        @ spaces 8 @ conds @ nl
        @ spaces 8 @ pagination @ nl
        @ spaces 4"

text \<open>\<^verbatim>\<open>get_versions\<close>.\<close>

definition get_versions ::
  "('i, 'n) resolver_env \<Rightarrow> root_node \<Rightarrow> 'i \<Rightarrow> versions_args \<Rightarrow> resolver_log \<Rightarrow>
   (exn + 'n VersionsConnection) \<times> resolver_log" where
  "get_versions env root info a lg =
     (let lg0 = lg\<lparr> get_versions_calls := Suc (get_versions_calls lg) \<rparr>;
          pname = root_project_name root
      in if ids a = Some [replicate 32 (CHR ''0'')] then (Inr \<lparr> edges = [] \<rparr>, lg0)
         else
           (case validate_lists env a of
              Some e \<Rightarrow> (Inl e, lg0)
            | None \<Rightarrow>
                let access_list = create_folder_access_list env root info;
                    sql_conditions =
                      filter_conditions env root a @ latest_conditions pname a
                      @ links_conditions env pname a @ access_conditions access_list;
                    sql_joins = access_joins pname access_list
                in (case order_by_of (sort_by a) of
                      Inl e \<Rightarrow> (Inl e, lg0)
                    | Inr order_by \<Rightarrow>
                        let need_cursor =
                              has_any env info ''versions''
                                [''versions.pageInfo.startCursor'',
                                 ''versions.pageInfo.endCursor'',
                                 ''versions.edges.cursor''];
                            (pagination, paging_conds, cur) =
                              create_pagination env order_by (first_arg a) (after_arg a)
                                (last_arg a) (before_arg a) need_cursor;
                            query =
                              versions_query pname cur sql_joins
                                (conditions env (sql_conditions @ paging_conds)) pagination
                        in (resolve env pname query (first_arg a) (last_arg a) info,
                            lg0\<lparr> queries := queries lg0 @ [query] \<rparr>))))"

text \<open>
  \<^verbatim>\<open>get_version\<close>: \<^verbatim>\<open>connection.edges[0].node\<close> is read only when
  \<^verbatim>\<open>connection.edges\<close> is not empty.
\<close>

definition get_version ::
  "('i, 'n) resolver_env \<Rightarrow> root_node \<Rightarrow> 'i \<Rightarrow> string \<Rightarrow> resolver_log \<Rightarrow>
   (exn + 'n option) \<times> resolver_log" where
  "get_version env root info vid lg =
     (if vid = [] then (Inr None, lg)
      else
        (case get_versions env root info (default_versions_args\<lparr> ids := Some [vid] \<rparr>) lg of
           (Inl e, lg') \<Rightarrow> (Inl e, lg')
         | (Inr connection, lg') \<Rightarrow>
             (case edges connection of
                [] \<Rightarrow> (Inr None, lg')
              | e # rest \<Rightarrow> (Inr (Some (node e)), lg'))))"

section \<open>Example inputs\<close>

text \<open>
  Concrete callers, requests, stores and jobs at which the theorems below are
  instantiated. The event store is a counter here, and the filter type is \<open>unit\<close>.
\<close>

definition service_user :: current_user where
  "service_user = \<lparr> name = ''workerservice01'', is_service = True \<rparr>"

definition plain_user :: current_user where
  "plain_user = \<lparr> name = ''artist'', is_service = False \<rparr>"

definition ftrack_request :: "unit EnrollRequestModel" where
  "ftrack_request =
     \<lparr> source_topic = Single ''ftrack.*'',
       target_topic = ''ftrack.sync'',
       sender = ''workerservice01'',
       description = None,
       sequential = False,
       filter_opt = None,
       max_retries = 3,
       ignore_older_than = 3,
       sloth_mode = False \<rparr>"

definition wildcard_target_request :: "unit EnrollRequestModel" where
  "wildcard_target_request = ftrack_request\<lparr> target_topic := ''ftrack.*'' \<rparr>"

definition zero_cutoff_request :: "unit EnrollRequestModel" where
  "zero_cutoff_request = ftrack_request\<lparr> ignore_older_than := 0 \<rparr>"

definition bad_list_request :: "unit EnrollRequestModel" where
  "bad_list_request = ftrack_request\<lparr> source_topic := Many [''ftrack.*'', ''no topic'', ''x..y''] \<rparr>"

definition list_request :: "unit EnrollRequestModel" where
  "list_request = ftrack_request\<lparr> source_topic := Many [''ftrack.*'', ''shotgrid.*''] \<rparr>"

definition minimal_body :: "unit enroll_request_body" where
  "minimal_body =
     \<lparr> body_source_topic = Some (Single ''ftrack.update''),
       body_target_topic = Some ''ftrack.sync'',
       body_sender = Some ''workerservice01'',
       body_description = None,
       body_sequential = None,
       body_filter = None,
       body_max_retries = None,
       body_ignore_older_than = None,
       body_sloth_mode = None \<rparr>"

definition ftrack_only :: "unit EnrollRequestModel" where
  "ftrack_only = ftrack_request\<lparr> source_topic := Single ''ftrack.update'' \<rparr>"

definition idle_job :: "unit enroll_job_call \<Rightarrow> nat \<Rightarrow> (exn + string option) \<times> nat" where
  "idle_job args st = (Inr None, st)"

definition claiming_job :: "unit enroll_job_call \<Rightarrow> nat \<Rightarrow> (exn + string option) \<times> nat" where
  "claiming_job args st = (Inr (Some (job_target_topic args)), Suc st)"

definition refusing_job :: "unit enroll_job_call \<Rightarrow> nat \<Rightarrow> (exn + string option) \<times> nat" where
  "refusing_job args st = (Inl (ForbiddenException ''stream is closed''), st)"

definition pool :: "int \<Rightarrow> (unit, nat) server" where
  "pool n = \<lparr> store = 0, available_connections = n, job_calls = [] \<rparr>"

definition review_db :: project_db where
  "review_db =
     \<lparr> activity_feed =
         [\<lparr> activity_id = ''a'', reference_type = ''origin'', activity_type = ''reviewable'',
             entity_type = ''version'', entity_id = ''v1'' \<rparr>,
          \<lparr> activity_id = ''b'', reference_type = ''origin'', activity_type = ''reviewable'',
             entity_type = ''version'', entity_id = ''v1'' \<rparr>,
          \<lparr> activity_id = ''c'', reference_type = ''origin'', activity_type = ''comment'',
             entity_type = ''version'', entity_id = ''v1'' \<rparr>,
          \<lparr> activity_id = ''d'', reference_type = ''origin'', activity_type = ''reviewable'',
             entity_type = ''version'', entity_id = ''v2'' \<rparr>],
       activities =
         [''a'' \<mapsto> Map.empty,
          ''b'' \<mapsto> [''label'' \<mapsto> JStr ''turntable''],
          ''c'' \<mapsto> Map.empty,
          ''d'' \<mapsto> [''reviewableOrder'' \<mapsto> JInt 0]] \<rparr>"

definition load_any :: "project_db \<Rightarrow> string \<Rightarrow> string \<Rightarrow> exn + unit" where
  "load_any db pname version_id = Inr ()"

definition allow_all :: "unit \<Rightarrow> current_user \<Rightarrow> exn option" where
  "allow_all ver user = None"

definition demo_env :: "(unit, string) resolver_env" where
  "demo_env =
     \<lparr> id_array = (\<lambda>xs. ''('' @ str_join '', '' xs @ '')''),
       int_array = (\<lambda>ns. ''('' @ str_join '', '' (map str_int ns) @ '')''),
       str_array = (\<lambda>xs curly. ''('' @ str_join '', '' xs @ '')''),
       validate_name_list = (\<lambda>xs. None),
       validate_status_list = (\<lambda>xs. None),
       get_has_links_conds = (\<lambda>pname col hl. []),
       create_folder_access_list = (\<lambda>root info. None),
       has_any = (\<lambda>info prefix fields. False),
       create_pagination =
         (\<lambda>order_by f a l b need_cursor.
            (''ORDER BY '' @ str_join '', '' order_by, [], ''versions.creation_order'')),
       conditions = (\<lambda>cs. if cs = [] then [] else ''WHERE '' @ str_join '' AND '' cs),
       resolve =
         (\<lambda>pname query f l info.
            if pname = ''demo'' then
              Inr \<lparr> edges = [\<lparr> node = ''version-7'', cursor = None \<rparr>,
                                \<lparr> node = ''version-8'', cursor = None \<rparr>] \<rparr>
            else Inr \<lparr> edges = [] \<rparr>) \<rparr>"

definition broken_env :: "(unit, string) resolver_env" where
  "broken_env = demo_env\<lparr> resolve := (\<lambda>pname query f l info. Inl (ValueError ''no connection'')) \<rparr>"

definition demo_root :: root_node where
  "demo_root = \<lparr> root_project_name = ''demo'', root_class_name = ''ProjectNode'', root_id = ''p1'' \<rparr>"

definition other_root :: root_node where
  "other_root = \<lparr> root_project_name = ''other'', root_class_name = ''ProjectNode'', root_id = ''p2'' \<rparr>"

definition empty_log :: resolver_log where
  "empty_log = \<lparr> get_versions_calls = 0, queries = [] \<rparr>"

section \<open>Properties of the enrollment endpoint\<close>

lemma validate_source_topics_Inl:
  "validate_source_topics r ts = Inl e \<Longrightarrow>
     \<exists>t \<in> set ts. \<not> r t \<and> e = BadRequestException (''Invalid topic: '' @ t)"
  by (induction ts) (auto simp: validate_source_topic_def split: sum.splits if_splits)

lemma normalize_source_topic_Inl:
  "normalize_source_topic r src = Inl e \<Longrightarrow>
     \<exists>t. \<not> r t \<and> e = BadRequestException (''Invalid topic: '' @ t)"
  by (cases src) (auto simp: validate_source_topic_def dest: validate_source_topics_Inl split: sum.splits if_splits)

text \<open>
  C4. A caller without the service capability is refused with Forbidden before
  anything else is looked at: whatever the payload, the pool headroom and the
  store, the result is the Forbidden error and the server is unchanged. For a
  service caller the endpoint's own check does not raise: a Forbidden result
  can only be an exception that \<^verbatim>\<open>enroll_job\<close> raised.
\<close>

theorem enroll_forbidden_first:
  "(\<not> is_service user \<longrightarrow>
      enroll topic_regex enroll_job payload user s =
        (Inl (ForbiddenException ''Only services can enroll for jobs''), s)) \<and>
   (is_service user \<longrightarrow>
      fst (enroll topic_regex enroll_job payload user s) = Inl (ForbiddenException m) \<longrightarrow>
      (\<exists>args. fst (enroll_job args (store s)) = Inl (ForbiddenException m)))"
proof (intro conjI impI)
  assume "\<not> is_service user"
  then show "enroll topic_regex enroll_job payload user s =
        (Inl (ForbiddenException ''Only services can enroll for jobs''), s)"
    by (simp add: enroll_def)
next
  assume svc: "is_service user"
    and res: "fst (enroll topic_regex enroll_job payload user s) = Inl (ForbiddenException m)"
  show "\<exists>args. fst (enroll_job args (store s)) = Inl (ForbiddenException m)"
  proof (cases "normalize_source_topic topic_regex (source_topic payload)")
    case (Inl e)
    with svc res have "e = ForbiddenException m" by (simp add: enroll_def)
    with Inl show ?thesis by (auto dest: normalize_source_topic_Inl)
  next
    case (Inr src)
    with svc res
    have "fst (enroll_job (enroll_job_args payload user src) (store s)) = Inl (ForbiddenException m)"
      by (auto simp: enroll_def Let_def split: if_splits prod.splits sum.splits option.splits)
    then show ?thesis by blast
  qed
qed

theorem enroll_forbidden_first_witness:
  "\<not> is_service plain_user \<and>
   enroll topic_grammar idle_job wildcard_target_request plain_user (pool 2) =
     (Inl (ForbiddenException ''Only services can enroll for jobs''), pool 2) \<and>
   is_service service_user \<and>
   fst (enroll topic_grammar refusing_job ftrack_request service_user (pool 5)) =
     Inl (ForbiddenException ''stream is closed'') \<and>
   (\<exists>args. fst (refusing_job args (store (pool 5))) = Inl (ForbiddenException ''stream is closed''))"
proof -
  have a: "\<not> is_service plain_user" by (simp add: plain_user_def)
  have b: "is_service service_user" by (simp add: service_user_def)
  have c: "fst (enroll topic_grammar refusing_job ftrack_request service_user (pool 5)) =
     Inl (ForbiddenException ''stream is closed'')"
    by (simp add: enroll_def service_user_def ftrack_request_def validate_source_topic_def
        topic_grammar_def topic_segment_def is_alnum_def pool_def refusing_job_def Let_def)
  from a b c
    enroll_forbidden_first [of plain_user topic_grammar idle_job wildcard_target_request "pool 2"]
    enroll_forbidden_first [of service_user topic_grammar refusing_job ftrack_request "pool 5" "''stream is closed''"]
  show ?thesis by simp
qed

lemma enroll_error_unchanged:
  "CHR ''*'' \<in> set (target_topic payload) \<or> available_connections s < 3 \<Longrightarrow>
     \<exists>e. enroll topic_regex enroll_job payload user s = (Inl e, s) \<and>
         (is_client_error e \<or> is_unavailable (Inl e :: exn + unit))"
  by (cases "normalize_source_topic topic_regex (source_topic payload)")
     (auto simp: enroll_def dest: normalize_source_topic_Inl)

text \<open>
  C2. A request whose target topic contains the wildcard always fails with a
  client error and leaves the server as it was: the store is untouched and
  \<^verbatim>\<open>enroll_job\<close> is not called (the log of calls is part of the
  unchanged server). When the caller is a service and the source topics are
  valid, the error is the bad request about the target topic.
\<close>

theorem enroll_wildcard_target_rejected:
  "CHR ''*'' \<in> set (target_topic payload) \<Longrightarrow>
     (\<exists>e. enroll topic_regex enroll_job payload user s = (Inl e, s) \<and> is_client_error e) \<and>
     (is_service user \<and> normalize_source_topic topic_regex (source_topic payload) = Inr src \<longrightarrow>
        enroll topic_regex enroll_job payload user s =
          (Inl (BadRequestException ''Target topic must not contain wildcards''), s))"
  by (cases "normalize_source_topic topic_regex (source_topic payload)")
     (auto simp: enroll_def dest: normalize_source_topic_Inl)

lemma validate_ftrack:
  "validate_source_topic topic_grammar ''ftrack.*'' = Inr ''ftrack.%''"
  by (simp add: validate_source_topic_def topic_grammar_def topic_segment_def is_alnum_def
      replace_star_def)

theorem enroll_wildcard_target_rejected_witness:
  "CHR ''*'' \<in> set (target_topic wildcard_target_request) \<and>
   is_service service_user \<and>
   normalize_source_topic topic_grammar (source_topic wildcard_target_request) = Inr (Single ''ftrack.%'') \<and>
   enroll topic_grammar claiming_job wildcard_target_request service_user (pool 5) =
     (Inl (BadRequestException ''Target topic must not contain wildcards''), pool 5)"
proof -
  have a: "CHR ''*'' \<in> set (target_topic wildcard_target_request)"
    by (simp add: wildcard_target_request_def)
  have b: "is_service service_user" by (simp add: service_user_def)
  have c: "normalize_source_topic topic_grammar (source_topic wildcard_target_request) =
      Inr (Single ''ftrack.%'')"
    by (simp add: wildcard_target_request_def ftrack_request_def validate_ftrack)
  from a b c enroll_wildcard_target_rejected [OF a, of topic_grammar claiming_job service_user "pool 5" "Single ''ftrack.%''"]
  show ?thesis by simp
qed

text \<open>
  C3, as the claim states it, fails: with two connections left, a service
  caller whose target topic carries the wildcard gets the bad request, not
  Unavailable, because the topic checks run before the pool is looked at.
\<close>

theorem enroll_backpressure_counterexample:
  "available_connections (pool 2) < 3 \<and>
   fst (enroll topic_grammar idle_job wildcard_target_request service_user (pool 2)) =
     Inl (BadRequestException ''Target topic must not contain wildcards'') \<and>
   \<not> is_unavailable (fst (enroll topic_grammar idle_job wildcard_target_request service_user (pool 2)))"
  by (simp add: enroll_def pool_def service_user_def wildcard_target_request_def ftrack_request_def
      validate_ftrack)

text \<open>
  C3, amended. With fewer than 3 connections left every call fails and leaves
  the server as it was, so \<^verbatim>\<open>enroll_job\<close> is not called. For a service
  caller with valid source topics and a wildcard-free target topic the error is
  Unavailable, with the remaining pool size in its message; and with 3 or more
  connections left that call is not refused: \<^verbatim>\<open>enroll_job\<close> is called once,
  with the normalized arguments.
\<close>

theorem enroll_backpressure:
  "(available_connections s < 3 \<longrightarrow>
      (\<exists>e. enroll topic_regex enroll_job payload user s = (Inl e, s))) \<and>
   (is_service user \<and> normalize_source_topic topic_regex (source_topic payload) = Inr src \<and>
    CHR ''*'' \<notin> set (target_topic payload) \<longrightarrow>
      (available_connections s < 3 \<longrightarrow>
         enroll topic_regex enroll_job payload user s =
           (Inl (ServiceUnavailableException
              (''Postgres remaining pool size: '' @ str_int (available_connections s))), s)) \<and>
      (3 \<le> available_connections s \<longrightarrow>
         job_calls (snd (enroll topic_regex enroll_job payload user s)) =
           job_calls s @ [enroll_job_args payload user src] \<and>
         store (snd (enroll topic_regex enroll_job payload user s)) =
           snd (enroll_job (enroll_job_args payload user src) (store s))))"
proof (intro conjI impI)
  assume "available_connections s < 3"
  then show "\<exists>e. enroll topic_regex enroll_job payload user s = (Inl e, s)"
    using enroll_error_unchanged [of payload s topic_regex enroll_job user] by blast
next
  assume "is_service user \<and> normalize_source_topic topic_regex (source_topic payload) = Inr src \<and>
    CHR ''*'' \<notin> set (target_topic payload)"
    and "available_connections s < 3"
  then show "enroll topic_regex enroll_job payload user s =
           (Inl (ServiceUnavailableException
              (''Postgres remaining pool size: '' @ str_int (available_connections s))), s)"
    by (simp add: enroll_def)
next
  assume h: "is_service user \<and> normalize_source_topic topic_regex (source_topic payload) = Inr src \<and>
    CHR ''*'' \<notin> set (target_topic payload)"
    and "3 \<le> available_connections s"
  then show "job_calls (snd (enroll topic_regex enroll_job payload user s)) =
           job_calls s @ [enroll_job_args payload user src]"
    by (auto simp: enroll_def Let_def split: prod.splits sum.splits option.splits)
  from h \<open>3 \<le> available_connections s\<close>
  show "store (snd (enroll topic_regex enroll_job payload user s)) =
           snd (enroll_job (enroll_job_args payload user src) (store s))"
    by (auto simp: enroll_def Let_def split: prod.splits sum.splits option.splits)
qed

lemma str_int_2: "str_int 2 = ''2''"
  by (simp add: str_int_def str_nat.simps digit_char_def)

theorem enroll_backpressure_witness:
  "available_connections (pool 2) < 3 \<and>
   is_service service_user \<and>
   normalize_source_topic topic_grammar (source_topic ftrack_request) = Inr (Single ''ftrack.%'') \<and>
   CHR ''*'' \<notin> set (target_topic ftrack_request) \<and>
   enroll topic_grammar claiming_job ftrack_request service_user (pool 2) =
     (Inl (ServiceUnavailableException ''Postgres remaining pool size: 2''), pool 2) \<and>
   3 \<le> available_connections (pool 3) \<and>
   job_calls (snd (enroll topic_grammar claiming_job ftrack_request service_user (pool 3))) =
     [enroll_job_args ftrack_request service_user (Single ''ftrack.%'')] \<and>
   store (snd (enroll topic_grammar claiming_job ftrack_request service_user (pool 3))) = 1"
proof -
  have a: "available_connections (pool 2) < 3" "3 \<le> available_connections (pool 3)"
    by (simp_all add: pool_def)
  have b: "is_service service_user" by (simp add: service_user_def)
  have c: "normalize_source_topic topic_grammar (source_topic ftrack_request) =
      Inr (Single ''ftrack.%'')"
    by (simp add: ftrack_request_def validate_ftrack)
  have d: "CHR ''*'' \<notin> set (target_topic ftrack_request)"
    by (simp add: ftrack_request_def)
  have e: "job_calls (pool 3) = []" "store (pool 3) = 0" "available_connections (pool 2) = 2"
    by (simp_all add: pool_def)
  from a b c d e str_int_2
    enroll_backpressure [of "pool 2" topic_grammar claiming_job ftrack_request service_user "Single ''ftrack.%''"]
    enroll_backpressure [of "pool 3" topic_grammar claiming_job ftrack_request service_user "Single ''ftrack.%''"]
  show ?thesis by (simp add: claiming_job_def)
qed

lemma ignore_older_never_None:
  "ignore_older payload = Some (ignore_older_than payload)"
  by (simp add: ignore_older_def)

text \<open>
  C1. The code at the request with \<^verbatim>\<open>ignore_older_than = 0\<close>: the comparison
  with the string \<^verbatim>\<open>"0"\<close> is false for the integer, so the value is not
  replaced by \<^verbatim>\<open>None\<close> and \<^verbatim>\<open>enroll_job\<close> is called with a cutoff of 0 days.
\<close>

theorem enroll_zero_cutoff_not_normalized:
  "ignore_older_than zero_cutoff_request = 0 \<and>
   ignore_older zero_cutoff_request = Some 0 \<and>
   map job_ignore_older_than
     (job_calls (snd (enroll topic_grammar idle_job zero_cutoff_request service_user (pool 5)))) =
     [Some 0]"
  by (simp add: ignore_older_def zero_cutoff_request_def ftrack_request_def enroll_def
      service_user_def pool_def validate_ftrack idle_job_def enroll_job_args_def)

text \<open>
  C6. When the call reaches \<^verbatim>\<open>enroll_job\<close> and that finds no candidate,
  the endpoint returns the empty response: a value on the result side, so it is
  no error of any kind, and it differs from every claimed job. Conversely the
  empty response is returned only when \<^verbatim>\<open>enroll_job\<close> returned \<^verbatim>\<open>None\<close>.
\<close>

theorem enroll_no_work_empty_response:
  "(is_service user \<and> normalize_source_topic topic_regex (source_topic payload) = Inr src \<and>
    CHR ''*'' \<notin> set (target_topic payload) \<and> 3 \<le> available_connections s \<and>
    fst (enroll_job (enroll_job_args payload user src) (store s)) = Inr None \<longrightarrow>
      fst (enroll topic_regex enroll_job payload user s) = Inr EmptyResponse \<and>
      (\<forall>e. fst (enroll topic_regex enroll_job payload user s) \<noteq> Inl e) \<and>
      (\<forall>r. fst (enroll topic_regex enroll_job payload user s) \<noteq> Inr (Job r))) \<and>
   (fst (enroll topic_regex enroll_job payload user s) = Inr EmptyResponse \<longrightarrow>
      (\<exists>args. fst (enroll_job args (store s)) = Inr None))"
proof (intro conjI impI)
  assume h: "is_service user \<and> normalize_source_topic topic_regex (source_topic payload) = Inr src \<and>
    CHR ''*'' \<notin> set (target_topic payload) \<and> 3 \<le> available_connections s \<and>
    fst (enroll_job (enroll_job_args payload user src) (store s)) = Inr None"
  then have r: "fst (enroll topic_regex enroll_job payload user s) = Inr EmptyResponse"
    by (auto simp: enroll_def Let_def split: prod.splits)
  then show "fst (enroll topic_regex enroll_job payload user s) = Inr EmptyResponse" .
  from r show "\<forall>e. fst (enroll topic_regex enroll_job payload user s) \<noteq> Inl e" by simp
  from r show "\<forall>r. fst (enroll topic_regex enroll_job payload user s) \<noteq> Inr (Job r)" by simp
next
  assume res: "fst (enroll topic_regex enroll_job payload user s) = Inr EmptyResponse"
  show "\<exists>args. fst (enroll_job args (store s)) = Inr None"
  proof (cases "normalize_source_topic topic_regex (source_topic payload)")
    case (Inl e)
    with res show ?thesis by (simp add: enroll_def split: if_splits)
  next
    case (Inr src')
    with res
    have "fst (enroll_job (enroll_job_args payload user src') (store s)) = Inr None"
      by (auto simp: enroll_def Let_def split: if_splits prod.splits sum.splits option.splits)
    then show ?thesis by blast
  qed
qed

theorem enroll_no_work_empty_response_witness:
  "is_service service_user \<and>
   normalize_source_topic topic_grammar (source_topic ftrack_request) = Inr (Single ''ftrack.%'') \<and>
   CHR ''*'' \<notin> set (target_topic ftrack_request) \<and> 3 \<le> available_connections (pool 5) \<and>
   fst (idle_job (enroll_job_args ftrack_request service_user (Single ''ftrack.%'')) (store (pool 5)))
     = Inr None \<and>
   fst (enroll topic_grammar idle_job ftrack_request service_user (pool 5)) = Inr EmptyResponse \<and>
   (\<exists>args. fst (idle_job args (store (pool 5))) = Inr None)"
proof -
  have a: "is_service service_user" by (simp add: service_user_def)
  have b: "normalize_source_topic topic_grammar (source_topic ftrack_request) =
      Inr (Single ''ftrack.%'')"
    by (simp add: ftrack_request_def validate_ftrack)
  have c: "CHR ''*'' \<notin> set (target_topic ftrack_request)"
    by (simp add: ftrack_request_def)
  have d: "3 \<le> available_connections (pool 5)" by (simp add: pool_def)
  have e: "fst (idle_job (enroll_job_args ftrack_request service_user (Single ''ftrack.%''))
      (store (pool 5))) = Inr None"
    by (simp add: idle_job_def)
  from a b c d e
    enroll_no_work_empty_response [of service_user topic_grammar ftrack_request
      "Single ''ftrack.%''" "pool 5" idle_job]
  show ?thesis by simp
qed

lemma validate_source_topics_all_valid:
  "list_all r ts \<Longrightarrow> validate_source_topics r ts = Inr (map replace_star ts)"
  by (induction ts) (simp_all add: validate_source_topic_def)

lemma validate_source_topics_first_invalid:
  "list_all r pre \<Longrightarrow> \<not> r t \<Longrightarrow>
     validate_source_topics r (pre @ t # post) = Inl (BadRequestException (''Invalid topic: '' @ t))"
  by (induction pre) (simp_all add: validate_source_topic_def)

lemma like_match_percent: "like_match ''%'' t"
  by (induction t) simp_all

lemma like_match_prefix:
  "CHR ''%'' \<notin> set p \<Longrightarrow> like_match (p @ ''%'') t = (take (length p) t = p)"
proof (induction p arbitrary: t)
  case Nil
  then show ?case by (simp add: like_match_percent)
next
  case (Cons c p)
  then show ?case by (cases t) auto
qed

text \<open>
  C5. \<^verbatim>\<open>validate_source_topic\<close> on a pattern that does not match the grammar
  raises the bad request whose message ends with the pattern itself; on a
  pattern that matches it returns the pattern with every \<^verbatim>\<open>*\<close> turned into
  \<^verbatim>\<open>%\<close>. A list of patterns is validated element by element: all valid
  gives the list of the normalized patterns, and the first invalid element is
  the one the error names. In the endpoint, for a service caller, that error is
  the result and the server is unchanged; and when every pattern is valid (the
  target topic has no wildcard and 3 or more connections are left) the
  endpoint calls \<^verbatim>\<open>enroll_job\<close> once, with the substituted patterns as its
  source topic: the single pattern, or the list, element by element, never the
  patterns as they came in. The pattern \<^verbatim>\<open>ftrack.*\<close> becomes
  \<^verbatim>\<open>ftrack.%\<close>, which matches exactly the topics that start with
  \<^verbatim>\<open>ftrack.\<close>: \<^verbatim>\<open>ftrack.update\<close> and \<^verbatim>\<open>ftrack.sync\<close>, not
  \<^verbatim>\<open>shotgrid.update\<close>.
\<close>

theorem validate_source_topic_spec:
  "(\<not> r v \<longrightarrow>
      validate_source_topic r v = Inl (BadRequestException (''Invalid topic: '' @ v))) \<and>
   (r v \<longrightarrow>
      validate_source_topic r v = Inr (map (\<lambda>c. if c = CHR ''*'' then CHR ''%'' else c) v)) \<and>
   (list_all r ts \<longrightarrow>
      validate_source_topics r ts =
        Inr (map (map (\<lambda>c. if c = CHR ''*'' then CHR ''%'' else c)) ts)) \<and>
   (list_all r pre \<and> \<not> r t \<longrightarrow>
      validate_source_topics r (pre @ t # post) =
        Inl (BadRequestException (''Invalid topic: '' @ t))) \<and>
   (is_service user \<and> \<not> r t \<and>
    (source_topic payload = Single t \<or> (list_all r pre \<and> source_topic payload = Many (pre @ t # post))) \<longrightarrow>
      enroll r enroll_job payload user s =
        (Inl (BadRequestException (''Invalid topic: '' @ t)), s)) \<and>
   (is_service user \<and> source_topic payload = Single v \<and> r v \<and>
    CHR ''*'' \<notin> set (target_topic payload) \<and> 3 \<le> available_connections s \<longrightarrow>
      job_calls (snd (enroll r enroll_job payload user s)) =
        job_calls s @
          [enroll_job_args payload user
             (Single (map (\<lambda>c. if c = CHR ''*'' then CHR ''%'' else c) v))] \<and>
      map job_source_topic (job_calls (snd (enroll r enroll_job payload user s))) =
        map job_source_topic (job_calls s) @
          [Single (map (\<lambda>c. if c = CHR ''*'' then CHR ''%'' else c) v)]) \<and>
   (is_service user \<and> source_topic payload = Many ts \<and> list_all r ts \<and>
    CHR ''*'' \<notin> set (target_topic payload) \<and> 3 \<le> available_connections s \<longrightarrow>
      job_calls (snd (enroll r enroll_job payload user s)) =
        job_calls s @
          [enroll_job_args payload user
             (Many (map (map (\<lambda>c. if c = CHR ''*'' then CHR ''%'' else c)) ts))] \<and>
      map job_source_topic (job_calls (snd (enroll r enroll_job payload user s))) =
        map job_source_topic (job_calls s) @
          [Many (map (map (\<lambda>c. if c = CHR ''*'' then CHR ''%'' else c)) ts)]) \<and>
   (r ''ftrack.*'' \<longrightarrow> validate_source_topic r ''ftrack.*'' = Inr ''ftrack.%'') \<and>
   like_match ''ftrack.%'' topic = (take 7 topic = ''ftrack.'') \<and>
   like_match ''ftrack.%'' ''ftrack.update'' \<and>
   like_match ''ftrack.%'' ''ftrack.sync'' \<and>
   \<not> like_match ''ftrack.%'' ''shotgrid.update''"
proof (intro conjI impI)
  show "like_match ''ftrack.%'' topic = (take 7 topic = ''ftrack.'')"
    using like_match_prefix [of "''ftrack.''" topic] by (simp add: eval_nat_numeral)
  show "like_match ''ftrack.%'' ''ftrack.update''"
    using like_match_prefix [of "''ftrack.''" "''ftrack.update''"] by simp
  show "like_match ''ftrack.%'' ''ftrack.sync''"
    using like_match_prefix [of "''ftrack.''" "''ftrack.sync''"] by simp
  show "\<not> like_match ''ftrack.%'' ''shotgrid.update''"
    using like_match_prefix [of "''ftrack.''" "''shotgrid.update''"] by simp
next
  assume "list_all r ts"
  then show "validate_source_topics r ts =
        Inr (map (map (\<lambda>c. if c = CHR ''*'' then CHR ''%'' else c)) ts)"
    using validate_source_topics_all_valid [of r ts] by (simp add: replace_star_def [abs_def])
next
  assume "list_all r pre \<and> \<not> r t"
  then show "validate_source_topics r (pre @ t # post) =
        Inl (BadRequestException (''Invalid topic: '' @ t))"
    by (simp add: validate_source_topics_first_invalid)
next
  assume "is_service user \<and> \<not> r t \<and>
    (source_topic payload = Single t \<or> (list_all r pre \<and> source_topic payload = Many (pre @ t # post)))"
  then show "enroll r enroll_job payload user s =
        (Inl (BadRequestException (''Invalid topic: '' @ t)), s)"
    by (auto simp: enroll_def validate_source_topic_def validate_source_topics_first_invalid)
next
  assume h: "is_service user \<and> source_topic payload = Single v \<and> r v \<and>
    CHR ''*'' \<notin> set (target_topic payload) \<and> 3 \<le> available_connections s"
  then have n: "normalize_source_topic r (source_topic payload) =
      Inr (Single (map (\<lambda>c. if c = CHR ''*'' then CHR ''%'' else c) v))"
    by (simp add: validate_source_topic_def replace_star_def)
  from h n show calls: "job_calls (snd (enroll r enroll_job payload user s)) =
        job_calls s @
          [enroll_job_args payload user
             (Single (map (\<lambda>c. if c = CHR ''*'' then CHR ''%'' else c) v))]"
    by (simp add: enroll_def Let_def split: prod.splits sum.splits option.splits)
  show "map job_source_topic (job_calls (snd (enroll r enroll_job payload user s))) =
        map job_source_topic (job_calls s) @
          [Single (map (\<lambda>c. if c = CHR ''*'' then CHR ''%'' else c) v)]"
    unfolding calls by (simp add: enroll_job_args_def)
next
  assume h: "is_service user \<and> source_topic payload = Many ts \<and> list_all r ts \<and>
    CHR ''*'' \<notin> set (target_topic payload) \<and> 3 \<le> available_connections s"
  then have n: "normalize_source_topic r (source_topic payload) =
      Inr (Many (map (map (\<lambda>c. if c = CHR ''*'' then CHR ''%'' else c)) ts))"
    using validate_source_topics_all_valid [of r ts] by (simp add: replace_star_def [abs_def])
  from h n show calls: "job_calls (snd (enroll r enroll_job payload user s)) =
        job_calls s @
          [enroll_job_args payload user
             (Many (map (map (\<lambda>c. if c = CHR ''*'' then CHR ''%'' else c)) ts))]"
    by (simp add: enroll_def Let_def split: prod.splits sum.splits option.splits)
  show "map job_source_topic (job_calls (snd (enroll r enroll_job payload user s))) =
        map job_source_topic (job_calls s) @
          [Many (map (map (\<lambda>c. if c = CHR ''*'' then CHR ''%'' else c)) ts)]"
    unfolding calls by (simp add: enroll_job_args_def)
qed (simp_all add: validate_source_topic_def replace_star_def)

theorem validate_source_topic_spec_witness:
  "\<not> topic_grammar ''no topic'' \<and>
   validate_source_topic topic_grammar ''no topic'' =
     Inl (BadRequestException ''Invalid topic: no topic'') \<and>
   topic_grammar ''ftrack.*'' \<and>
   validate_source_topic topic_grammar ''ftrack.*'' = Inr ''ftrack.%'' \<and>
   list_all topic_grammar [''ftrack.*''] \<and>
   validate_source_topics topic_grammar [''ftrack.*''] = Inr [''ftrack.%''] \<and>
   validate_source_topics topic_grammar ([''ftrack.*''] @ ''no topic'' # [''x..y'']) =
     Inl (BadRequestException ''Invalid topic: no topic'') \<and>
   is_service service_user \<and>
   source_topic bad_list_request = Many ([''ftrack.*''] @ ''no topic'' # [''x..y'']) \<and>
   enroll topic_grammar claiming_job bad_list_request service_user (pool 5) =
     (Inl (BadRequestException ''Invalid topic: no topic''), pool 5) \<and>
   source_topic ftrack_request = Single ''ftrack.*'' \<and>
   CHR ''*'' \<notin> set (target_topic ftrack_request) \<and>
   3 \<le> available_connections (pool 5) \<and>
   map job_source_topic
     (job_calls (snd (enroll topic_grammar claiming_job ftrack_request service_user (pool 5)))) =
     [Single ''ftrack.%''] \<and>
   source_topic list_request = Many [''ftrack.*'', ''shotgrid.*''] \<and>
   list_all topic_grammar [''ftrack.*'', ''shotgrid.*''] \<and>
   CHR ''*'' \<notin> set (target_topic list_request) \<and>
   map job_source_topic
     (job_calls (snd (enroll topic_grammar claiming_job list_request service_user (pool 5)))) =
     [Many [''ftrack.%'', ''shotgrid.%'']] \<and>
   like_match ''ftrack.%'' ''ftrack.update'' \<and>
   like_match ''ftrack.%'' ''ftrack.sync'' \<and>
   \<not> like_match ''ftrack.%'' ''shotgrid.update''"
proof -
  have a: "\<not> topic_grammar ''no topic''"
    by (simp add: topic_grammar_def topic_segment_def is_alnum_def)
  have b: "topic_grammar ''ftrack.*''"
    by (simp add: topic_grammar_def topic_segment_def is_alnum_def)
  have c: "is_service service_user" by (simp add: service_user_def)
  have d: "source_topic bad_list_request = Many ([''ftrack.*''] @ ''no topic'' # [''x..y''])"
    by (simp add: bad_list_request_def ftrack_request_def)
  have e: "source_topic ftrack_request = Single ''ftrack.*''"
    "CHR ''*'' \<notin> set (target_topic ftrack_request)"
    "source_topic list_request = Many [''ftrack.*'', ''shotgrid.*'']"
    "CHR ''*'' \<notin> set (target_topic list_request)"
    by (simp_all add: list_request_def ftrack_request_def)
  have f: "3 \<le> available_connections (pool 5)" "job_calls (pool 5) = []"
    by (simp_all add: pool_def)
  have g: "list_all topic_grammar [''ftrack.*'', ''shotgrid.*'']"
    by (simp add: topic_grammar_def topic_segment_def is_alnum_def)
  have single: "map job_source_topic
      (job_calls (snd (enroll topic_grammar claiming_job ftrack_request service_user (pool 5)))) =
      [Single ''ftrack.%'']"
    using validate_source_topic_spec [where r = topic_grammar and v = "''ftrack.*''"
        and user = service_user and payload = ftrack_request and enroll_job = claiming_job
        and s = "pool 5", THEN conjunct2, THEN conjunct2, THEN conjunct2, THEN conjunct2,
        THEN conjunct2, THEN conjunct1, rule_format, OF conjI, OF c conjI, OF e(1) conjI,
        OF b conjI, OF e(2) f(1), THEN conjunct2]
    by (simp add: f(2))
  have many: "map job_source_topic
      (job_calls (snd (enroll topic_grammar claiming_job list_request service_user (pool 5)))) =
      [Many [''ftrack.%'', ''shotgrid.%'']]"
    using validate_source_topic_spec [where r = topic_grammar
        and ts = "[''ftrack.*'', ''shotgrid.*'']"
        and user = service_user and payload = list_request and enroll_job = claiming_job
        and s = "pool 5", THEN conjunct2, THEN conjunct2, THEN conjunct2, THEN conjunct2,
        THEN conjunct2, THEN conjunct2, THEN conjunct1, rule_format, OF conjI, OF c conjI,
        OF e(3) conjI, OF g conjI, OF e(4) f(1), THEN conjunct2]
    by (simp add: f(2))
  from a b c d e f(1) g single many
    validate_source_topic_spec [of topic_grammar "''no topic''" "[''ftrack.*'']" "[''ftrack.*'']"
      "''no topic''" "[''x..y'']" service_user bad_list_request claiming_job "pool 5"]
    validate_source_topic_spec [of topic_grammar "''ftrack.*''" "[''ftrack.*'']" "[''ftrack.*'']"
      "''no topic''" "[''x..y'']" service_user bad_list_request claiming_job "pool 5"]
  show ?thesis by simp
qed

text \<open>
  C8. A request body is accepted exactly when \<^verbatim>\<open>source_topic\<close>,
  \<^verbatim>\<open>target_topic\<close> and \<^verbatim>\<open>sender\<close> are given (and the target topic
  matches the topic grammar): these three have no default, and leaving one out
  is reported. In an accepted request every omitted optional field has its
  default: \<^verbatim>\<open>sequential\<close> false, \<^verbatim>\<open>filter\<close> absent, \<^verbatim>\<open>max_retries\<close> 3,
  \<^verbatim>\<open>ignore_older_than\<close> 3, \<^verbatim>\<open>sloth_mode\<close> false, \<^verbatim>\<open>description\<close> absent.
\<close>

theorem EnrollRequestModel_defaults:
  "((\<exists>m. parse_EnrollRequestModel r b = Inr m) =
      (\<exists>src tgt sndr. body_source_topic b = Some src \<and> body_target_topic b = Some tgt \<and>
         body_sender b = Some sndr \<and> r tgt)) \<and>
   (parse_EnrollRequestModel r b = Inr m \<longrightarrow>
      body_source_topic b = Some (source_topic m) \<and>
      body_target_topic b = Some (target_topic m) \<and>
      body_sender b = Some (sender m) \<and>
      (body_sequential b = None \<longrightarrow> sequential m = False) \<and>
      (body_filter b = None \<longrightarrow> filter_opt m = None) \<and>
      (body_max_retries b = None \<longrightarrow> max_retries m = 3) \<and>
      (body_ignore_older_than b = None \<longrightarrow> ignore_older_than m = 3) \<and>
      (body_sloth_mode b = None \<longrightarrow> sloth_mode m = False) \<and>
      (body_description b = None \<longrightarrow> description m = None)) \<and>
   (body_source_topic b = None \<longrightarrow>
      (\<exists>errs. parse_EnrollRequestModel r b = Inl errs \<and> MissingField ''source_topic'' \<in> set errs)) \<and>
   (body_target_topic b = None \<longrightarrow>
      (\<exists>errs. parse_EnrollRequestModel r b = Inl errs \<and> MissingField ''target_topic'' \<in> set errs)) \<and>
   (body_sender b = None \<longrightarrow>
      (\<exists>errs. parse_EnrollRequestModel r b = Inl errs \<and> MissingField ''sender'' \<in> set errs))"
proof (intro conjI impI)
  show "(\<exists>m. parse_EnrollRequestModel r b = Inr m) =
      (\<exists>src tgt sndr. body_source_topic b = Some src \<and> body_target_topic b = Some tgt \<and>
         body_sender b = Some sndr \<and> r tgt)"
    by (auto simp: parse_EnrollRequestModel_def split: option.splits if_splits)
next
  assume ok: "parse_EnrollRequestModel r b = Inr m"
  then show "body_source_topic b = Some (source_topic m)"
    and "body_target_topic b = Some (target_topic m)"
    and "body_sender b = Some (sender m)"
    by (auto simp: parse_EnrollRequestModel_def split: option.splits if_splits)
  {
    assume "body_sequential b = None"
    with ok show "sequential m = False"
      by (auto simp: parse_EnrollRequestModel_def default_to_def split: option.splits if_splits)
  }
  {
    assume "body_filter b = None"
    with ok show "filter_opt m = None"
      by (auto simp: parse_EnrollRequestModel_def default_to_def split: option.splits if_splits)
  }
  {
    assume "body_max_retries b = None"
    with ok show "max_retries m = 3"
      by (auto simp: parse_EnrollRequestModel_def default_to_def split: option.splits if_splits)
  }
  {
    assume "body_ignore_older_than b = None"
    with ok show "ignore_older_than m = 3"
      by (auto simp: parse_EnrollRequestModel_def default_to_def split: option.splits if_splits)
  }
  {
    assume "body_sloth_mode b = None"
    with ok show "sloth_mode m = False"
      by (auto simp: parse_EnrollRequestModel_def default_to_def split: option.splits if_splits)
  }
  {
    assume "body_description b = None"
    with ok show "description m = None"
      by (auto simp: parse_EnrollRequestModel_def default_to_def split: option.splits if_splits)
  }
next
  assume "body_source_topic b = None"
  then show "\<exists>errs. parse_EnrollRequestModel r b = Inl errs \<and> MissingField ''source_topic'' \<in> set errs"
    by (simp add: parse_EnrollRequestModel_def required_errors_def)
next
  assume "body_target_topic b = None"
  then show "\<exists>errs. parse_EnrollRequestModel r b = Inl errs \<and> MissingField ''target_topic'' \<in> set errs"
    by (simp add: parse_EnrollRequestModel_def required_errors_def split: option.splits)
next
  assume "body_sender b = None"
  then show "\<exists>errs. parse_EnrollRequestModel r b = Inl errs \<and> MissingField ''sender'' \<in> set errs"
    by (simp add: parse_EnrollRequestModel_def required_errors_def split: option.splits)
qed

lemma parse_minimal_body:
  "parse_EnrollRequestModel topic_grammar minimal_body =
     Inr \<lparr> source_topic = Single ''ftrack.update'', target_topic = ''ftrack.sync'',
           sender = ''workerservice01'', description = None, sequential = False,
           filter_opt = None, max_retries = 3, ignore_older_than = 3, sloth_mode = False \<rparr>"
  by (simp add: parse_EnrollRequestModel_def minimal_body_def default_to_def
      topic_grammar_def topic_segment_def is_alnum_def)

theorem EnrollRequestModel_defaults_witness:
  "parse_EnrollRequestModel topic_grammar minimal_body = Inr ftrack_only \<and>
   body_sequential minimal_body = None \<and> sequential ftrack_only = False \<and>
   body_filter minimal_body = None \<and> filter_opt ftrack_only = None \<and>
   body_max_retries minimal_body = None \<and> max_retries ftrack_only = 3 \<and>
   body_ignore_older_than minimal_body = None \<and> ignore_older_than ftrack_only = 3 \<and>
   body_sloth_mode minimal_body = None \<and> sloth_mode ftrack_only = False \<and>
   body_description minimal_body = None \<and> description ftrack_only = None \<and>
   body_sender (minimal_body\<lparr> body_sender := None \<rparr>) = None \<and>
   (\<exists>errs. parse_EnrollRequestModel topic_grammar (minimal_body\<lparr> body_sender := None \<rparr>) = Inl errs \<and>
      MissingField ''sender'' \<in> set errs)"
proof -
  have a: "parse_EnrollRequestModel topic_grammar minimal_body = Inr ftrack_only"
    by (simp add: parse_minimal_body ftrack_only_def ftrack_request_def)
  have b: "body_sequential minimal_body = None" "body_filter minimal_body = None"
    "body_max_retries minimal_body = None" "body_ignore_older_than minimal_body = None"
    "body_sloth_mode minimal_body = None" "body_description minimal_body = None"
    "body_sender (minimal_body\<lparr> body_sender := None \<rparr>) = None"
    by (simp_all add: minimal_body_def)
  from a b
    EnrollRequestModel_defaults [of topic_grammar minimal_body ftrack_only]
    EnrollRequestModel_defaults [of topic_grammar "minimal_body\<lparr> body_sender := None \<rparr>" ftrack_only]
  show ?thesis by simp
qed

section \<open>Properties of the reviewables endpoint\<close>

lemma update_reviewable_order_other:
  "a \<noteq> aid \<Longrightarrow> update_reviewable_order i aid acts a = acts a"
  by (simp add: update_reviewable_order_def split: option.splits)

lemma update_reviewable_order_same:
  "update_reviewable_order i aid acts aid =
     map_option (\<lambda>d. d(''reviewableOrder'' \<mapsto> JInt i)) (acts aid)"
  by (simp add: update_reviewable_order_def split: option.splits)

lemma update_all_orders_other:
  "a \<notin> set xs \<Longrightarrow> update_all_orders k xs acts a = acts a"
  by (induction xs arbitrary: k acts) (simp_all add: update_reviewable_order_other)

lemma update_all_orders_last:
  "i < length xs \<Longrightarrow> (\<forall>j. i < j \<and> j < length xs \<longrightarrow> xs ! j \<noteq> xs ! i) \<Longrightarrow>
     update_all_orders k xs acts (xs ! i) =
       map_option (\<lambda>d. d(''reviewableOrder'' \<mapsto> JInt (int (k + i)))) (acts (xs ! i))"
proof (induction xs arbitrary: k acts i)
  case Nil
  then show ?case by simp
next
  case (Cons x rest)
  show ?case
  proof (cases i)
    case 0
    have "x \<notin> set rest"
    proof
      assume "x \<in> set rest"
      then obtain j where "j < length rest" "rest ! j = x"
        by (auto simp: in_set_conv_nth)
      with Cons.prems(2) 0 show False
        by (auto dest: spec [of _ "Suc j"])
    qed
    with 0 show ?thesis
      by (cases "acts x")
         (simp_all add: update_all_orders_other update_reviewable_order_same fun_upd_def)
  next
    case (Suc i')
    with Cons.prems have lt: "i' < length rest"
      and last: "\<forall>j. i' < j \<and> j < length rest \<longrightarrow> rest ! j \<noteq> rest ! i'"
      by (auto dest: spec [of _ "Suc j" for j])
    from Cons.IH [OF lt last, of "Suc k" "update_reviewable_order (int k) x acts"] Suc
    show ?thesis
      by (cases "rest ! i' = x"; cases "acts (rest ! i')")
         (auto simp: update_reviewable_order_other update_reviewable_order_same fun_upd_def)
  qed
qed

lemma sort_version_reviewables_loaded:
  assumes "load db pname version_id = Inr ver"
    and "ensure_update_access ver user = None"
    and "sort_field request = Some srt"
  shows
    "(set srt \<noteq> set (fetch_reviewables db version_id) \<longrightarrow>
        (\<exists>e. sort_version_reviewables load ensure_update_access user pname version_id request db =
               (Inl e, db) \<and>
             is_client_error e \<and>
             (fetch_reviewables db version_id \<noteq> [] \<longrightarrow>
                e = BadRequestException ''Invalid reviewable ids''))) \<and>
     (set srt = set (fetch_reviewables db version_id) \<and> srt \<noteq> [] \<longrightarrow>
        fst (sort_version_reviewables load ensure_update_access user pname version_id request db) =
          Inr () \<and>
        activity_feed (snd (sort_version_reviewables load ensure_update_access user pname
          version_id request db)) = activity_feed db \<and>
        (\<forall>i. i < length srt \<and> (\<forall>j. i < j \<and> j < length srt \<longrightarrow> srt ! j \<noteq> srt ! i) \<longrightarrow>
           activities (snd (sort_version_reviewables load ensure_update_access user pname
             version_id request db)) (srt ! i) =
           map_option (\<lambda>d. d(''reviewableOrder'' \<mapsto> JInt (int i))) (activities db (srt ! i))) \<and>
        (distinct srt \<longrightarrow>
           (\<forall>i. i < length srt \<longrightarrow>
              activities (snd (sort_version_reviewables load ensure_update_access user pname
                version_id request db)) (srt ! i) =
              map_option (\<lambda>d. d(''reviewableOrder'' \<mapsto> JInt (int i))) (activities db (srt ! i)))) \<and>
        (\<forall>a. a \<notin> set srt \<longrightarrow>
           activities (snd (sort_version_reviewables load ensure_update_access user pname
             version_id request db)) a = activities db a))"
proof (intro conjI impI)
  assume "set srt \<noteq> set (fetch_reviewables db version_id)"
  with assms
  show "\<exists>e. sort_version_reviewables load ensure_update_access user pname version_id request db =
               (Inl e, db) \<and>
             is_client_error e \<and>
             (fetch_reviewables db version_id \<noteq> [] \<longrightarrow>
                e = BadRequestException ''Invalid reviewable ids'')"
    by (simp add: sort_version_reviewables_def Let_def)
next
  assume eq: "set srt = set (fetch_reviewables db version_id) \<and> srt \<noteq> []"
  then have ne: "fetch_reviewables db version_id \<noteq> []" by auto
  from assms eq ne
  have run: "sort_version_reviewables load ensure_update_access user pname version_id request db =
      (Inr (), db\<lparr> activities := update_all_orders 0 srt (activities db) \<rparr>)"
    by (simp add: sort_version_reviewables_def Let_def)
  show "fst (sort_version_reviewables load ensure_update_access user pname version_id request db) =
          Inr ()"
    by (simp add: run)
  show "activity_feed (snd (sort_version_reviewables load ensure_update_access user pname
          version_id request db)) = activity_feed db"
    by (simp add: run)
  show last: "\<forall>i. i < length srt \<and> (\<forall>j. i < j \<and> j < length srt \<longrightarrow> srt ! j \<noteq> srt ! i) \<longrightarrow>
           activities (snd (sort_version_reviewables load ensure_update_access user pname
             version_id request db)) (srt ! i) =
           map_option (\<lambda>d. d(''reviewableOrder'' \<mapsto> JInt (int i))) (activities db (srt ! i))"
    using update_all_orders_last [of _ srt 0 "activities db"] by (simp add: run)
  show "\<forall>a. a \<notin> set srt \<longrightarrow>
           activities (snd (sort_version_reviewables load ensure_update_access user pname
             version_id request db)) a = activities db a"
    by (simp add: run update_all_orders_other)
  {
    assume d: "distinct srt"
    show "\<forall>i. i < length srt \<longrightarrow>
              activities (snd (sort_version_reviewables load ensure_update_access user pname
                version_id request db)) (srt ! i) =
              map_option (\<lambda>d. d(''reviewableOrder'' \<mapsto> JInt (int i))) (activities db (srt ! i))"
    proof (intro allI impI)
      fix i assume i: "i < length srt"
      with d have "\<forall>j. i < j \<and> j < length srt \<longrightarrow> srt ! j \<noteq> srt ! i"
        by (auto simp: nth_eq_iff_index_eq)
      with i last
      show "activities (snd (sort_version_reviewables load ensure_update_access user pname
                version_id request db)) (srt ! i) =
              map_option (\<lambda>d. d(''reviewableOrder'' \<mapsto> JInt (int i))) (activities db (srt ! i))"
        by blast
    qed
  }
qed

text \<open>
  C9. For a request with a sort list: when the set of listed ids differs from
  the set of the version's stored reviewable ids the call fails and the
  database is unchanged, whatever the outcome of loading the version and of
  the access check. For a version that loads and that the user may update, that
  failure is a client error (the bad request whenever the version has a
  reviewable at all; a version with none is reported as not found). When the
  sets are equal and the list is not empty the call succeeds, touches no
  activity outside the list, and every listed activity has
  \<^verbatim>\<open>reviewableOrder\<close> set to the index of its last occurrence in the list,
  the other keys of its data being kept: the comparison is on sets, so
  duplicates are accepted and a later index overwrites an earlier one. In a
  list without duplicates that is the index of each id.
\<close>

theorem sort_version_reviewables_spec:
  assumes "sort_field request = Some srt"
  shows
    "(set srt \<noteq> set (fetch_reviewables db version_id) \<longrightarrow>
        (\<exists>e. sort_version_reviewables load ensure_update_access user pname version_id request db =
               (Inl e, db))) \<and>
     (load db pname version_id = Inr ver \<and> ensure_update_access ver user = None \<longrightarrow>
       (set srt \<noteq> set (fetch_reviewables db version_id) \<longrightarrow>
          (\<exists>e. sort_version_reviewables load ensure_update_access user pname version_id request db =
                 (Inl e, db) \<and>
               is_client_error e \<and>
               (fetch_reviewables db version_id \<noteq> [] \<longrightarrow>
                  e = BadRequestException ''Invalid reviewable ids''))) \<and>
       (set srt = set (fetch_reviewables db version_id) \<and> srt \<noteq> [] \<longrightarrow>
          fst (sort_version_reviewables load ensure_update_access user pname version_id request db) =
            Inr () \<and>
          activity_feed (snd (sort_version_reviewables load ensure_update_access user pname
            version_id request db)) = activity_feed db \<and>
          (\<forall>i. i < length srt \<and> (\<forall>j. i < j \<and> j < length srt \<longrightarrow> srt ! j \<noteq> srt ! i) \<longrightarrow>
             activities (snd (sort_version_reviewables load ensure_update_access user pname
               version_id request db)) (srt ! i) =
             map_option (\<lambda>d. d(''reviewableOrder'' \<mapsto> JInt (int i))) (activities db (srt ! i))) \<and>
          (distinct srt \<longrightarrow>
             (\<forall>i. i < length srt \<longrightarrow>
                activities (snd (sort_version_reviewables load ensure_update_access user pname
                  version_id request db)) (srt ! i) =
                map_option (\<lambda>d. d(''reviewableOrder'' \<mapsto> JInt (int i))) (activities db (srt ! i)))) \<and>
          (\<forall>a. a \<notin> set srt \<longrightarrow>
             activities (snd (sort_version_reviewables load ensure_update_access user pname
               version_id request db)) a = activities db a)))"
proof (intro conjI impI)
  assume "set srt \<noteq> set (fetch_reviewables db version_id)"
  with assms
  show "\<exists>e. sort_version_reviewables load ensure_update_access user pname version_id request db =
               (Inl e, db)"
    by (simp add: sort_version_reviewables_def Let_def split: sum.splits option.splits)
qed (use assms sort_version_reviewables_loaded [of load db pname version_id ver
      ensure_update_access user request srt] in blast)+

lemma fetch_review_db: "fetch_reviewables review_db ''v1'' = [''a'', ''b'']"
  by (simp add: fetch_reviewables_def review_db_def)

theorem sort_version_reviewables_spec_witness:
  "load_any review_db ''demo'' ''v1'' = Inr () \<and>
   allow_all () plain_user = None \<and>
   sort_field \<lparr> sort_field = Some [''b'', ''a'', ''b''] \<rparr> = Some [''b'', ''a'', ''b''] \<and>
   set [''b'', ''a'', ''b''] = set (fetch_reviewables review_db ''v1'') \<and>
   fst (sort_version_reviewables load_any allow_all plain_user ''demo'' ''v1''
     \<lparr> sort_field = Some [''b'', ''a'', ''b''] \<rparr> review_db) = Inr () \<and>
   map_option (\<lambda>d. (d ''reviewableOrder'', d ''label''))
     (activities (snd (sort_version_reviewables load_any allow_all plain_user ''demo'' ''v1''
        \<lparr> sort_field = Some [''b'', ''a'', ''b''] \<rparr> review_db)) ''b'') =
     Some (Some (JInt 2), Some (JStr ''turntable'')) \<and>
   map_option (\<lambda>d. d ''reviewableOrder'')
     (activities (snd (sort_version_reviewables load_any allow_all plain_user ''demo'' ''v1''
        \<lparr> sort_field = Some [''b'', ''a'', ''b''] \<rparr> review_db)) ''a'') = Some (Some (JInt 1)) \<and>
   map_option (\<lambda>d. d ''reviewableOrder'')
     (activities (snd (sort_version_reviewables load_any allow_all plain_user ''demo'' ''v1''
        \<lparr> sort_field = Some [''b'', ''a'', ''b''] \<rparr> review_db)) ''d'') = Some (Some (JInt 0)) \<and>
   sort_field \<lparr> sort_field = Some [''a''] \<rparr> = Some [''a''] \<and>
   set [''a''] \<noteq> set (fetch_reviewables review_db ''v1'') \<and>
   sort_version_reviewables load_any allow_all plain_user ''demo'' ''v1''
     \<lparr> sort_field = Some [''a''] \<rparr> review_db =
     (Inl (BadRequestException ''Invalid reviewable ids''), review_db)"
proof -
  let ?req = "\<lparr> sort_field = Some [''b'', ''a'', ''b''] \<rparr>"
  let ?bad = "\<lparr> sort_field = Some [''a''] \<rparr>"
  let ?run = "sort_version_reviewables load_any allow_all plain_user ''demo'' ''v1'' ?req review_db"
  have a: "load_any review_db ''demo'' ''v1'' = Inr ()" by (simp add: load_any_def)
  have b: "allow_all () plain_user = None" by (simp add: allow_all_def)
  have c: "sort_field ?req = Some [''b'', ''a'', ''b'']" by simp
  have c': "sort_field ?bad = Some [''a'']" by simp
  have d: "set [''b'', ''a'', ''b''] = set (fetch_reviewables review_db ''v1'')"
    unfolding fetch_review_db by auto
  have d': "set [''a''] \<noteq> set (fetch_reviewables review_db ''v1'')"
    unfolding fetch_review_db by auto
  have ne: "fetch_reviewables review_db ''v1'' \<noteq> []"
    unfolding fetch_review_db by simp
  have prem: "set [''b'', ''a'', ''b''] = set (fetch_reviewables review_db ''v1'') \<and>
      [''b'', ''a'', ''b''] \<noteq> ([] :: string list)"
    using d by simp
  note good = sort_version_reviewables_spec [where load = load_any and db = review_db
      and pname = "''demo''" and version_id = "''v1''" and ver = "()"
      and ensure_update_access = allow_all and user = plain_user and request = ?req
      and srt = "[''b'', ''a'', ''b'']", OF c,
      THEN conjunct2, rule_format, OF conjI, OF a b, THEN conjunct2, rule_format, OF prem]
  note bad = sort_version_reviewables_spec [where load = load_any and db = review_db
      and pname = "''demo''" and version_id = "''v1''" and ver = "()"
      and ensure_update_access = allow_all and user = plain_user and request = ?bad
      and srt = "[''a'']", OF c',
      THEN conjunct2, rule_format, OF conjI, OF a b, THEN conjunct1, rule_format, OF d']
  have ok: "fst ?run = Inr ()" by (rule good [THEN conjunct1])
  note last = good [THEN conjunct2, THEN conjunct2, THEN conjunct1, rule_format]
  note other = good [THEN conjunct2, THEN conjunct2, THEN conjunct2, THEN conjunct2, rule_format]
  have "activities (snd ?run) ([''b'', ''a'', ''b''] ! 2) =
      map_option (\<lambda>d. d(''reviewableOrder'' \<mapsto> JInt (int 2)))
        (activities review_db ([''b'', ''a'', ''b''] ! 2))"
    by (rule last) simp
  then have at_b: "map_option (\<lambda>d. (d ''reviewableOrder'', d ''label'')) (activities (snd ?run) ''b'') =
      Some (Some (JInt 2), Some (JStr ''turntable''))"
    by (simp add: review_db_def)
  have "activities (snd ?run) ([''b'', ''a'', ''b''] ! 1) =
      map_option (\<lambda>d. d(''reviewableOrder'' \<mapsto> JInt (int 1)))
        (activities review_db ([''b'', ''a'', ''b''] ! 1))"
    by (rule last) (simp add: less_Suc_eq nth_Cons')
  then have at_a: "map_option (\<lambda>d. d ''reviewableOrder'') (activities (snd ?run) ''a'') =
      Some (Some (JInt 1))"
    by (simp add: review_db_def)
  have "activities (snd ?run) ''d'' = activities review_db ''d''"
    by (rule other) simp
  then have at_d: "map_option (\<lambda>d. d ''reviewableOrder'') (activities (snd ?run) ''d'') =
      Some (Some (JInt 0))"
    by (simp add: review_db_def)
  from bad ne have err: "sort_version_reviewables load_any allow_all plain_user ''demo'' ''v1''
      ?bad review_db = (Inl (BadRequestException ''Invalid reviewable ids''), review_db)"
    by blast
  from a b c c' d d' ok at_b at_a at_d err show ?thesis
    by (intro conjI) assumption+
qed

section \<open>Properties of the versions resolver\<close>

lemma null_id_literal: "replicate 32 (CHR ''0'') = ''00000000000000000000000000000000''"
  by (simp add: eval_nat_numeral)

lemma get_versions_null_id:
  "ids a = Some [''00000000000000000000000000000000''] \<Longrightarrow>
     get_versions env root info a lg =
       (Inr \<lparr> edges = [] \<rparr>, lg\<lparr> get_versions_calls := Suc (get_versions_calls lg) \<rparr>)"
  by (simp add: get_versions_def Let_def null_id_literal)

lemma validate_lists_default:
  "validate_lists env (default_versions_args\<lparr> ids := v \<rparr>) = None"
  by (simp add: validate_lists_def default_versions_args_def truthy_list_def)

lemma get_versions_by_id:
  assumes "vid \<noteq> ''00000000000000000000000000000000''"
  shows "\<exists>q. get_versions env root info (default_versions_args\<lparr> ids := Some [vid] \<rparr>) lg =
           (resolve env (root_project_name root) q None None info,
            lg\<lparr> get_versions_calls := Suc (get_versions_calls lg), queries := queries lg @ [q] \<rparr>)"
proof -
  have "ids (default_versions_args\<lparr> ids := Some [vid] \<rparr>) \<noteq> Some [replicate 32 (CHR ''0'')]"
    using assms by (simp add: null_id_literal)
  moreover have "sort_by (default_versions_args\<lparr> ids := Some [vid] \<rparr>) = None"
    "first_arg (default_versions_args\<lparr> ids := Some [vid] \<rparr>) = None"
    "last_arg (default_versions_args\<lparr> ids := Some [vid] \<rparr>) = None"
    by (simp_all add: default_versions_args_def)
  ultimately show ?thesis
    by (cases "create_pagination env [''versions.creation_order''] None
           (after_arg (default_versions_args\<lparr> ids := Some [vid] \<rparr>)) None
           (before_arg (default_versions_args\<lparr> ids := Some [vid] \<rparr>))
           (has_any env info ''versions''
              [''versions.pageInfo.startCursor'', ''versions.pageInfo.endCursor'',
               ''versions.edges.cursor''])")
       (simp add: get_versions_def Let_def validate_lists_default order_by_of_def, blast)
qed

text \<open>
  C10. \<^verbatim>\<open>get_versions\<close> called with the single all-zeros id returns the
  connection without edges and sends no query. \<^verbatim>\<open>get_version\<close> with the
  empty id returns \<^verbatim>\<open>None\<close> and leaves the log as it was: no call of
  \<^verbatim>\<open>get_versions\<close>, no query. With any other id it calls
  \<^verbatim>\<open>get_versions\<close> for that one id and returns the node of the first edge of
  the connection, or \<^verbatim>\<open>None\<close> when the connection has no edge (an
  exception of the call is passed on); unless the id is the all-zeros one, that
  call sends exactly one query.
\<close>

theorem get_version_spec:
  "(ids a = Some [''00000000000000000000000000000000''] \<longrightarrow>
      fst (get_versions env root info a lg) = Inr \<lparr> edges = [] \<rparr> \<and>
      queries (snd (get_versions env root info a lg)) = queries lg) \<and>
   get_version env root info [] lg = (Inr None, lg) \<and>
   (vid \<noteq> [] \<longrightarrow>
      snd (get_version env root info vid lg) =
        snd (get_versions env root info (default_versions_args\<lparr> ids := Some [vid] \<rparr>) lg) \<and>
      get_versions_calls (snd (get_version env root info vid lg)) = Suc (get_versions_calls lg)) \<and>
   (vid \<noteq> [] \<and>
    fst (get_versions env root info (default_versions_args\<lparr> ids := Some [vid] \<rparr>) lg) = Inr conn \<longrightarrow>
      fst (get_version env root info vid lg) =
        Inr (case edges conn of [] \<Rightarrow> None | e # rest \<Rightarrow> Some (node e))) \<and>
   (vid \<noteq> [] \<and>
    fst (get_versions env root info (default_versions_args\<lparr> ids := Some [vid] \<rparr>) lg) = Inl err \<longrightarrow>
      fst (get_version env root info vid lg) = Inl err) \<and>
   (vid \<noteq> [] \<and> vid \<noteq> ''00000000000000000000000000000000'' \<longrightarrow>
      (\<exists>q. queries (snd (get_version env root info vid lg)) = queries lg @ [q] \<and>
           fst (get_versions env root info (default_versions_args\<lparr> ids := Some [vid] \<rparr>) lg) =
             resolve env (root_project_name root) q None None info)) \<and>
   get_version env root info ''00000000000000000000000000000000'' lg =
     (Inr None, lg\<lparr> get_versions_calls := Suc (get_versions_calls lg) \<rparr>)"
proof (intro conjI impI)
  assume "ids a = Some [''00000000000000000000000000000000'']"
  then show "fst (get_versions env root info a lg) = Inr \<lparr> edges = [] \<rparr>"
    and "queries (snd (get_versions env root info a lg)) = queries lg"
    by (simp_all add: get_versions_null_id)
next
  show "get_version env root info [] lg = (Inr None, lg)"
    by (simp add: get_version_def)
next
  assume ne: "vid \<noteq> []"
  then show same: "snd (get_version env root info vid lg) =
      snd (get_versions env root info (default_versions_args\<lparr> ids := Some [vid] \<rparr>) lg)"
    by (simp add: get_version_def split: prod.splits sum.splits list.splits)
  show "get_versions_calls (snd (get_version env root info vid lg)) = Suc (get_versions_calls lg)"
  proof (cases "vid = ''00000000000000000000000000000000''")
    case True
    then show ?thesis
      unfolding same
      by (simp add: get_versions_null_id default_versions_args_def)
  next
    case False
    from get_versions_by_id [OF False, of env root info lg] show ?thesis
      unfolding same by auto
  qed
next
  assume "vid \<noteq> [] \<and>
    fst (get_versions env root info (default_versions_args\<lparr> ids := Some [vid] \<rparr>) lg) = Inr conn"
  then show "fst (get_version env root info vid lg) =
        Inr (case edges conn of [] \<Rightarrow> None | e # rest \<Rightarrow> Some (node e))"
    by (auto simp: get_version_def split: prod.splits sum.splits list.splits)
next
  assume "vid \<noteq> [] \<and>
    fst (get_versions env root info (default_versions_args\<lparr> ids := Some [vid] \<rparr>) lg) = Inl err"
  then show "fst (get_version env root info vid lg) = Inl err"
    by (auto simp: get_version_def split: prod.splits sum.splits list.splits)
next
  assume h: "vid \<noteq> [] \<and> vid \<noteq> ''00000000000000000000000000000000''"
  then have same: "snd (get_version env root info vid lg) =
      snd (get_versions env root info (default_versions_args\<lparr> ids := Some [vid] \<rparr>) lg)"
    by (simp add: get_version_def split: prod.splits sum.splits list.splits)
  from h get_versions_by_id [of vid env root info lg]
  obtain q where "get_versions env root info (default_versions_args\<lparr> ids := Some [vid] \<rparr>) lg =
           (resolve env (root_project_name root) q None None info,
            lg\<lparr> get_versions_calls := Suc (get_versions_calls lg), queries := queries lg @ [q] \<rparr>)"
    by blast
  then show "\<exists>q. queries (snd (get_version env root info vid lg)) = queries lg @ [q] \<and>
           fst (get_versions env root info (default_versions_args\<lparr> ids := Some [vid] \<rparr>) lg) =
             resolve env (root_project_name root) q None None info"
    unfolding same by auto
next
  show "get_version env root info ''00000000000000000000000000000000'' lg =
     (Inr None, lg\<lparr> get_versions_calls := Suc (get_versions_calls lg) \<rparr>)"
    by (simp add: get_version_def get_versions_null_id default_versions_args_def)
qed

lemma get_versions_by_id_result:
  assumes "vid \<noteq> ''00000000000000000000000000000000''"
    and "\<And>q. resolve env (root_project_name root) q None None info = r"
  shows "fst (get_versions env root info (default_versions_args\<lparr> ids := Some [vid] \<rparr>) lg) = r"
  using get_versions_by_id [OF assms(1), of env root info lg] assms(2) by auto

theorem get_version_spec_witness:
  "ids (default_versions_args\<lparr> ids := Some [''00000000000000000000000000000000''] \<rparr>) =
     Some [''00000000000000000000000000000000''] \<and>
   fst (get_versions demo_env demo_root ()
     (default_versions_args\<lparr> ids := Some [''00000000000000000000000000000000''] \<rparr>) empty_log) =
     Inr \<lparr> edges = [] \<rparr> \<and>
   queries (snd (get_versions demo_env demo_root ()
     (default_versions_args\<lparr> ids := Some [''00000000000000000000000000000000''] \<rparr>) empty_log)) = [] \<and>
   get_version demo_env demo_root () [] empty_log = (Inr None, empty_log) \<and>
   ''abc'' \<noteq> [] \<and>
   fst (get_versions demo_env demo_root () (default_versions_args\<lparr> ids := Some [''abc''] \<rparr>) empty_log) =
     Inr \<lparr> edges = [\<lparr> node = ''version-7'', cursor = None \<rparr>,
                    \<lparr> node = ''version-8'', cursor = None \<rparr>] \<rparr> \<and>
   fst (get_version demo_env demo_root () ''abc'' empty_log) = Inr (Some ''version-7'') \<and>
   fst (get_versions demo_env other_root () (default_versions_args\<lparr> ids := Some [''abc''] \<rparr>) empty_log) =
     Inr \<lparr> edges = [] \<rparr> \<and>
   fst (get_version demo_env other_root () ''abc'' empty_log) = Inr None \<and>
   fst (get_versions broken_env demo_root () (default_versions_args\<lparr> ids := Some [''abc''] \<rparr>) empty_log) =
     Inl (ValueError ''no connection'') \<and>
   fst (get_version broken_env demo_root () ''abc'' empty_log) = Inl (ValueError ''no connection'') \<and>
   get_versions_calls (snd (get_version demo_env demo_root () ''abc'' empty_log)) = 1 \<and>
   length (queries (snd (get_version demo_env demo_root () ''abc'' empty_log))) = 1"
proof -
  let ?null = "default_versions_args\<lparr> ids := Some [''00000000000000000000000000000000''] \<rparr>"
  let ?two = "\<lparr> edges = [\<lparr> node = ''version-7'', cursor = None \<rparr>,
                          \<lparr> node = ''version-8'', cursor = None \<rparr>] \<rparr>"
  have a: "ids ?null = Some [''00000000000000000000000000000000'']" by simp
  have b: "''abc'' \<noteq> []" "''abc'' \<noteq> ''00000000000000000000000000000000''" by simp_all
  have c: "fst (get_versions demo_env demo_root () (default_versions_args\<lparr> ids := Some [''abc''] \<rparr>)
      empty_log) = Inr ?two"
    by (rule get_versions_by_id_result) (simp_all add: demo_env_def demo_root_def)
  have d: "fst (get_versions demo_env other_root () (default_versions_args\<lparr> ids := Some [''abc''] \<rparr>)
      empty_log) = Inr \<lparr> edges = [] \<rparr>"
    by (rule get_versions_by_id_result) (simp_all add: demo_env_def other_root_def)
  have e: "fst (get_versions broken_env demo_root () (default_versions_args\<lparr> ids := Some [''abc''] \<rparr>)
      empty_log) = Inl (ValueError ''no connection'')"
    by (rule get_versions_by_id_result) (simp_all add: broken_env_def)
  note null = get_version_spec [of ?null demo_env demo_root "()" empty_log "''abc''" ?two,
      THEN conjunct1, rule_format, OF a]
  note empty = get_version_spec [of ?null demo_env demo_root "()" empty_log "''abc''" ?two,
      THEN conjunct2, THEN conjunct1]
  note rest = get_version_spec [of ?null demo_env demo_root "()" empty_log "''abc''" ?two,
      THEN conjunct2, THEN conjunct2]
  note rest_other = get_version_spec [of ?null demo_env other_root "()" empty_log "''abc''"
      "\<lparr> edges = [] \<rparr>", THEN conjunct2, THEN conjunct2]
  note rest_broken = get_version_spec [of ?null broken_env demo_root "()" empty_log "''abc''" ?two
      "ValueError ''no connection''", THEN conjunct2, THEN conjunct2]
  have n1: "fst (get_versions demo_env demo_root () ?null empty_log) = Inr \<lparr> edges = [] \<rparr>"
    by (rule null [THEN conjunct1])
  have n2: "queries (snd (get_versions demo_env demo_root () ?null empty_log)) = []"
    using null [THEN conjunct2] by (simp add: empty_log_def)
  have calls: "get_versions_calls (snd (get_version demo_env demo_root () ''abc'' empty_log)) = 1"
    using rest [THEN conjunct1, rule_format, OF b(1), THEN conjunct2]
    by (simp add: empty_log_def)
  have first: "fst (get_version demo_env demo_root () ''abc'' empty_log) = Inr (Some ''version-7'')"
    using rest [THEN conjunct2, THEN conjunct1, rule_format, OF conjI, OF b(1) c] by simp
  have none: "fst (get_version demo_env other_root () ''abc'' empty_log) = Inr None"
    using rest_other [THEN conjunct2, THEN conjunct1, rule_format, OF conjI, OF b(1) d] by simp
  have err: "fst (get_version broken_env demo_root () ''abc'' empty_log) =
      Inl (ValueError ''no connection'')"
    by (rule rest_broken [THEN conjunct2, THEN conjunct2, THEN conjunct1, rule_format,
          OF conjI, OF b(1) e])
  have one: "length (queries (snd (get_version demo_env demo_root () ''abc'' empty_log))) = 1"
    using rest [THEN conjunct2, THEN conjunct2, THEN conjunct2, THEN conjunct1, rule_format,
        OF conjI, OF b]
    by (auto simp: empty_log_def)
  from a n1 n2 empty b(1) c first d none e err calls one show ?thesis
    by (intro conjI) assumption+
qed

end
